theory Spec2Isabelle
  imports Complex_Main "HOL-Library.Monad_Syntax"
begin

section \<open>Agreement manager: the request handlers over an explicit store\<close>

text \<open>
  The repository holds five revisions of one Express/PostgreSQL backend:
  \<^item> revision A (\<^verbatim>\<open>part_000\<close>, lines 1-636): base64 credentials, no session check;
  \<^item> revision B (\<^verbatim>\<open>part_000\<close>, lines 636-1203): plain-text credentials, BEGIN/COMMIT restore;
  \<^item> revision C (\<^verbatim>\<open>part_001\<close>, lines 1-694): bcrypt credentials and JWT middleware;
  \<^item> revision D (\<^verbatim>\<open>part_001\<close>, lines 694-1059) and revision E (\<^verbatim>\<open>part_002\<close>): argon2.

  Every handler is a function from the store and the request to a response and the store
  afterwards. A table is the list of its rows in insertion order; a SERIAL column draws
  from a counter kept in the store. Strings are byte lists (the UTF-8 text of the
  JavaScript string); JavaScript numbers are modelled by exact rationals, so rounding of
  IEEE doubles is outside the model. A string or text column holding SQL NULL, or a
  payload field that is absent, is \<open>None\<close>. Failures of the connection to the database
  are not modelled; constraint violations are.
\<close>

subsection \<open>Payload values\<close>

text \<open>
  A request body is a JSON object: a map from field names to values, an absent field
  (JavaScript \<^verbatim>\<open>undefined\<close>) being \<open>None\<close>. Nested objects and arrays do not occur in the
  fields the handlers read.
\<close>

datatype jsval = JNull | JBool bool | JNum rat | JStr string

type_synonym payload = "string \<Rightarrow> jsval option"

text \<open>JavaScript truthiness, as used by \<^verbatim>\<open>!x\<close>, \<^verbatim>\<open>x || y\<close> and \<^verbatim>\<open>x && y\<close>.\<close>

definition truthy :: "jsval option \<Rightarrow> bool" where
  "truthy v = (case v of
       None \<Rightarrow> False
     | Some JNull \<Rightarrow> False
     | Some (JBool b) \<Rightarrow> b
     | Some (JNum r) \<Rightarrow> r \<noteq> 0
     | Some (JStr s) \<Rightarrow> s \<noteq> [])"

text \<open>\<^verbatim>\<open>x || null\<close>\<close>

definition or_null :: "jsval option \<Rightarrow> jsval option" where
  "or_null v = (if truthy v then v else Some JNull)"

text \<open>\<^verbatim>\<open>x || 'literal'\<close>\<close>

definition or_str :: "jsval option \<Rightarrow> string \<Rightarrow> jsval option" where
  "or_str v s = (if truthy v then v else Some (JStr s))"

text \<open>\<^verbatim>\<open>x || 0\<close> on a payload value\<close>

definition or_num0 :: "jsval option \<Rightarrow> jsval option" where
  "or_num0 v = (if truthy v then v else Some (JNum 0))"

text \<open>\<^verbatim>\<open>n || 0\<close> on the result of \<^verbatim>\<open>parseFloat\<close>, where \<open>None\<close> is NaN.\<close>

definition or_zero :: "rat option \<Rightarrow> rat" where
  "or_zero n = (case n of None \<Rightarrow> 0 | Some r \<Rightarrow> r)"

subsection \<open>Tables\<close>

record user =
  user_id :: nat
  username :: string
  password :: string
  full_name :: "string option"
  role :: string
  user_status :: "string option"
  user_created_at :: nat
  last_login :: "nat option"

record agreement =
  agreement_id :: nat
  owner_name :: "string option"
  location :: "string option"
  token_number :: "string option"
  agreement_date :: "string option"
  owner_contact :: "string option"
  tenant_contact :: "string option"
  email :: "string option"
  expiry_date :: "string option"
  reminder_date :: "string option"
  cc_email :: "string option"
  agent_name :: "string option"
  total_payment :: "rat option"
  payment_owner :: "rat option"
  payment_tenant :: "rat option"
  payment_received_date1 :: "string option"
  payment_received_date2 :: "string option"
  payment_due :: "rat option"
  agreement_status :: "string option"
  biometric_date :: "string option"
  actual_cost :: "rat option"
  agent_commission :: "rat option"
  other_expenses :: "rat option"
  gross_profit :: "rat option"
  net_profit :: "rat option"
  profit_margin :: "rat option"
  created_at :: nat
  updated_at :: "nat option"

record log_entry =
  log_username :: "string option"
  action :: string
  details :: string
  ip_address :: "string option"
  log_created_at :: nat

record settings =
  default_cc_email :: "string option"
  company_name :: "string option"
  reminder_days_before :: "int option"
  date_format :: "string option"
  currency_symbol :: "string option"
  session_timeout :: "int option"
  max_records_per_page :: "int option"

record db =
  users :: "user list"
  users_seq :: nat
  agreements :: "agreement list"
  agreements_seq :: nat
  activity_logs :: "log_entry list"
  system_settings :: "settings option"

subsection \<open>Library functions and the database's input routines\<close>

text \<open>
  What the handlers call but the repository does not define is a parameter of the model:
  the string grammar of \<^verbatim>\<open>parseFloat\<close> and \<^verbatim>\<open>parseInt\<close>, the text of a number, the
  input routines of the database for numeric, integer and timestamp text, whether a row
  fits the declared column types (date syntax, length and precision limits), the
  password hashing libraries and the JWT library. Every theorem holds for every choice
  of them.
\<close>

record token_claims =
  claim_id :: nat
  claim_username :: string
  claim_role :: string

record library =
  parse_float_str :: "string \<Rightarrow> rat option"
  parse_int_str :: "string \<Rightarrow> int option"
  num_to_str :: "rat \<Rightarrow> string"
  pg_numeric_str :: "string \<Rightarrow> rat option"
  pg_integer_str :: "string \<Rightarrow> int option"
  pg_timestamp_str :: "string \<Rightarrow> nat option"
  row_fits :: "agreement \<Rightarrow> bool"
  bcrypt_compare :: "jsval option \<Rightarrow> string \<Rightarrow> bool option"
  argon2_verify :: "string \<Rightarrow> jsval option \<Rightarrow> bool option"
  jwt_sign :: "token_claims \<Rightarrow> nat \<Rightarrow> string"
  jwt_verify :: "string \<Rightarrow> nat \<Rightarrow> token_claims option"

text \<open>\<^verbatim>\<open>String(v)\<close>, as a template literal applies it.\<close>

definition js_string :: "library \<Rightarrow> jsval option \<Rightarrow> string" where
  "js_string L v = (case v of
       None \<Rightarrow> ''undefined''
     | Some JNull \<Rightarrow> ''null''
     | Some (JBool b) \<Rightarrow> (if b then ''true'' else ''false'')
     | Some (JNum r) \<Rightarrow> num_to_str L r
     | Some (JStr s) \<Rightarrow> s)"

text \<open>\<^verbatim>\<open>parseFloat(v)\<close>: the value is turned into text and its numeric prefix read.\<close>

definition parseFloat :: "library \<Rightarrow> jsval option \<Rightarrow> rat option" where
  "parseFloat L v = (case v of
       Some (JNum r) \<Rightarrow> Some r
     | Some (JStr s) \<Rightarrow> parse_float_str L s
     | _ \<Rightarrow> None)"

text \<open>
  A query parameter bound to a text column: \<^verbatim>\<open>undefined\<close> and \<^verbatim>\<open>null\<close> are SQL NULL,
  everything else is sent as its text.
\<close>

definition pg_text :: "library \<Rightarrow> jsval option \<Rightarrow> string option" where
  "pg_text L v = (case v of
       None \<Rightarrow> None
     | Some JNull \<Rightarrow> None
     | Some x \<Rightarrow> Some (js_string L (Some x)))"

text \<open>
  A query parameter bound to a numeric column; the outer \<open>None\<close> is the database's
  "invalid input syntax" error.
\<close>

definition pg_numeric :: "library \<Rightarrow> jsval option \<Rightarrow> rat option option" where
  "pg_numeric L v = (case v of
       None \<Rightarrow> Some None
     | Some JNull \<Rightarrow> Some None
     | Some (JBool b) \<Rightarrow> None
     | Some (JNum r) \<Rightarrow> Some (Some r)
     | Some (JStr s) \<Rightarrow> map_option Some (pg_numeric_str L s))"

definition pg_integer :: "library \<Rightarrow> jsval option \<Rightarrow> int option option" where
  "pg_integer L v = (case v of
       None \<Rightarrow> Some None
     | Some JNull \<Rightarrow> Some None
     | Some (JBool b) \<Rightarrow> None
     | Some (JNum r) \<Rightarrow> map_option Some (pg_integer_str L (num_to_str L r))
     | Some (JStr s) \<Rightarrow> map_option Some (pg_integer_str L s))"

subsection \<open>Responses\<close>

datatype body =
    ErrorMsg string
  | Message string
  | Restored string nat
  | LoginA string string string string
  | LoginC string nat string string string
  | LoginE string nat string string string string string
  | Row agreement
  | Undefined
  | DebugUsers "(nat \<times> string \<times> string \<times> string) list"
  | NoContent

record response =
  status :: nat
  body :: body

definition reply :: "nat \<Rightarrow> body \<Rightarrow> response" where
  "reply c b = \<lparr>status = c, body = b\<rparr>"

subsection \<open>Statements\<close>

datatype dberror = UniqueViolation | NotNullViolation | DataException

definition insert_log :: "db \<Rightarrow> nat \<Rightarrow> string option \<Rightarrow> string \<Rightarrow> string \<Rightarrow> string option \<Rightarrow> db" where
  "insert_log d now u a dt ip =
     d\<lparr>activity_logs := activity_logs d @
        [\<lparr>log_username = u, action = a, details = dt, ip_address = ip, log_created_at = now\<rparr>]\<rparr>"

text \<open>\<^verbatim>\<open>SELECT * FROM users WHERE username = $1\<close>; a NULL parameter matches no row.\<close>

definition select_users_by_username :: "db \<Rightarrow> string option \<Rightarrow> user list" where
  "select_users_by_username d u = filter (\<lambda>r. Some (username r) = u) (users d)"

text \<open>\<^verbatim>\<open>UPDATE users SET password = $1 WHERE username = $2\<close>\<close>

definition update_password_by_username :: "db \<Rightarrow> string option \<Rightarrow> string \<Rightarrow> db" where
  "update_password_by_username d u p =
     d\<lparr>users := map (\<lambda>r. if Some (username r) = u then r\<lparr>password := p\<rparr> else r) (users d)\<rparr>"

text \<open>
  The UNIQUE constraint on \<^verbatim>\<open>token_number\<close>: NULL never conflicts.
\<close>

definition token_taken :: "agreement list \<Rightarrow> string option \<Rightarrow> bool" where
  "token_taken rows t = (t \<noteq> None \<and> t \<in> set (map token_number rows))"

text \<open>
  \<^verbatim>\<open>INSERT INTO agreements ... RETURNING *\<close>. The row comes with its listed columns and
  defaults filled in; the id is drawn from the sequence, which advances also when the
  insert then fails. \<open>notnull\<close> says whether the schema declares \<^verbatim>\<open>owner_name\<close>,
  \<^verbatim>\<open>location\<close> and \<^verbatim>\<open>token_number\<close> NOT NULL (revision A does).
\<close>

definition insert_agreement ::
  "library \<Rightarrow> bool \<Rightarrow> db \<Rightarrow> agreement \<Rightarrow> (dberror + agreement) \<times> db" where
  "insert_agreement L notnull d row =
     (let d1 = d\<lparr>agreements_seq := Suc (agreements_seq d)\<rparr>;
          r = row\<lparr>agreement_id := Suc (agreements_seq d)\<rparr>
      in if notnull \<and> (owner_name r = None \<or> location r = None \<or> token_number r = None)
         then (Inl NotNullViolation, d1)
         else if \<not> row_fits L r then (Inl DataException, d1)
         else if token_taken (agreements d) (token_number r) then (Inl UniqueViolation, d1)
         else (Inr r, d1\<lparr>agreements := agreements d @ [r]\<rparr>))"

text \<open>
  \<^verbatim>\<open>UPDATE agreements SET ... WHERE id = $n RETURNING *\<close>: \<open>f\<close> writes the SET list into
  the row. The result is the list of rows returned (empty when no row has the id).
\<close>

definition update_agreement ::
  "library \<Rightarrow> bool \<Rightarrow> db \<Rightarrow> int \<Rightarrow> (agreement \<Rightarrow> agreement) \<Rightarrow> (dberror + agreement list) \<times> db" where
  "update_agreement L notnull d i f =
     (case filter (\<lambda>r. int (agreement_id r) = i) (agreements d) of
        [] \<Rightarrow> (Inr [], d)
      | old # _ \<Rightarrow>
          let r = f old;
              others = filter (\<lambda>r. int (agreement_id r) \<noteq> i) (agreements d)
          in if notnull \<and> (owner_name r = None \<or> location r = None \<or> token_number r = None)
             then (Inl NotNullViolation, d)
             else if \<not> row_fits L r then (Inl DataException, d)
             else if token_taken others (token_number r) then (Inl UniqueViolation, d)
             else (Inr [r],
                   d\<lparr>agreements :=
                       map (\<lambda>x. if int (agreement_id x) = i then r else x) (agreements d)\<rparr>))"

text \<open>
  \<^verbatim>\<open>INSERT INTO users (username, password, role, created_at)\<close> under the schema of
  revisions B to D: the three text columns are NOT NULL and \<^verbatim>\<open>username\<close> is UNIQUE.
\<close>

definition insert_user ::
  "db \<Rightarrow> string option \<Rightarrow> string option \<Rightarrow> string option \<Rightarrow> nat \<Rightarrow> (dberror + user) \<times> db" where
  "insert_user d un pw rl created =
     (let d1 = d\<lparr>users_seq := Suc (users_seq d)\<rparr> in
      case (un, pw, rl) of
        (Some u, Some p, Some r) \<Rightarrow>
          if u \<in> set (map username (users d)) then (Inl UniqueViolation, d1)
          else
            let row = \<lparr>user_id = Suc (users_seq d), username = u, password = p,
                       full_name = None, role = r, user_status = None,
                       user_created_at = created, last_login = None\<rparr>
            in (Inr row, d1\<lparr>users := users d @ [row]\<rparr>)
      | _ \<Rightarrow> (Inl NotNullViolation, d1))"

subsection \<open>Revision A: base64 credentials, no session check\<close>

definition b64_alphabet :: string where
  "b64_alphabet = ''ABCDEFGHIJKLMNOPQRSTUVWXYZabcdefghijklmnopqrstuvwxyz0123456789+/''"

definition b64_char :: "nat \<Rightarrow> char" where
  "b64_char n = b64_alphabet ! (n mod 64)"

fun base64 :: "nat list \<Rightarrow> string" where
  "base64 [] = []"
| "base64 [a] =
     [b64_char (a div 4), b64_char ((a mod 4) * 16), CHR ''='', CHR ''='']"
| "base64 [a, b] =
     [b64_char (a div 4), b64_char ((a mod 4) * 16 + b div 16),
      b64_char ((b mod 16) * 4), CHR ''='']"
| "base64 (a # b # c # rest) =
     [b64_char (a div 4), b64_char ((a mod 4) * 16 + b div 16),
      b64_char ((b mod 16) * 4 + c div 64), b64_char (c mod 64)] @ base64 rest"

text \<open>\<^verbatim>\<open>simpleHash = (password) => Buffer.from(password).toString('base64')\<close>\<close>

definition simpleHash :: "string \<Rightarrow> string" where
  "simpleHash pw = base64 (map of_char pw)"

definition defaultPasswords :: "string \<Rightarrow> string option" where
  "defaultPasswords = map_of
     [(''admin'', ''admin123''), (''user'', ''user123''),
      (''agent'', ''agent123''), (''manager'', ''manager123'')]"

text \<open>
  \<^verbatim>\<open>POST /api/auth/login\<close> (\<^verbatim>\<open>part_000\<close>, lines 289-347). \<^verbatim>\<open>Buffer.from\<close> throws on a
  password that is not a string, which the handler's catch turns into status 500.
\<close>

definition login_A ::
  "library \<Rightarrow> db \<Rightarrow> nat \<Rightarrow> jsval option \<Rightarrow> jsval option \<Rightarrow> response \<times> db" where
  "login_A L d now uname pword =
     (if \<not> truthy uname \<or> \<not> truthy pword
      then (reply 400 (ErrorMsg ''Username and password are required''), d)
      else
        (case select_users_by_username d (pg_text L uname) of
           [] \<Rightarrow> (reply 401 (ErrorMsg ''Invalid username or password''), d)
         | usr # _ \<Rightarrow>
             (case pword of
                Some (JStr p) \<Rightarrow>
                  let base64Password = simpleHash p in
                  if base64Password = password usr
                  then (reply 200 (LoginA ''Login successful'' (username usr) (role usr)
                                    ''agreement-manager-token''),
                        insert_log d now (pg_text L uname) ''Login''
                          ''User logged in successfully'' None)
                  else if defaultPasswords (js_string L uname) = Some p
                  then
                    let newHashedPassword = simpleHash p;
                        d1 = update_password_by_username d (pg_text L uname) newHashedPassword;
                        d2 = insert_log d1 now (pg_text L uname) ''Login''
                               ''User logged in and password migrated'' None
                    in (reply 200 (LoginA ''Login successful (password migrated)''
                                     (username usr) (role usr) ''agreement-manager-token''), d2)
                  else (reply 401 (ErrorMsg ''Invalid username or password''), d)
              | _ \<Rightarrow> (reply 500 (ErrorMsg ''Internal server error''), d))))"

text \<open>\<^verbatim>\<open>GET /api/debug/users\<close> (\<^verbatim>\<open>part_000\<close>, lines 219-224): no header is read.\<close>

definition debug_users_A :: "db \<Rightarrow> response \<times> db" where
  "debug_users_A d =
     (reply 200 (DebugUsers (map (\<lambda>r. (user_id r, username r, role r, password r))
                               (sort_key user_id (users d)))), d)"


text \<open>
  The column defaults of revision A's \<^verbatim>\<open>agreements\<close> table, for the columns an INSERT
  does not list.
\<close>

definition defaults_A :: "nat \<Rightarrow> agreement" where
  "defaults_A now =
     \<lparr>agreement_id = 0, owner_name = None, location = None, token_number = None,
      agreement_date = None, owner_contact = None, tenant_contact = None, email = None,
      expiry_date = None, reminder_date = None,
      cc_email = Some ''support@ramnathshetty.com'', agent_name = None,
      total_payment = Some 0, payment_owner = Some 0, payment_tenant = Some 0,
      payment_received_date1 = None, payment_received_date2 = None,
      payment_due = Some 0, agreement_status = Some ''Drafted'', biometric_date = None,
      actual_cost = Some 0, agent_commission = Some 0, other_expenses = Some 0,
      gross_profit = Some 0, net_profit = Some 0, profit_margin = Some 0,
      created_at = now, updated_at = Some now\<rparr>"

text \<open>
  The nineteen columns that revision A's create and update write, from the payload
  values as bound by the caller; the four numeric parameters have been converted.
\<close>

definition columns_A ::
  "library \<Rightarrow> payload \<Rightarrow> jsval option \<Rightarrow> jsval option \<Rightarrow>
   rat option \<Rightarrow> rat option \<Rightarrow> rat option \<Rightarrow> rat option \<Rightarrow> agreement \<Rightarrow> agreement" where
  "columns_A L data ccEmail agreementStatus tp po pt pd row =
     row\<lparr>owner_name := pg_text L (data ''ownerName''),
         location := pg_text L (data ''location''),
         token_number := pg_text L (data ''tokenNumber''),
         agreement_date := pg_text L (data ''agreementDate''),
         owner_contact := pg_text L (data ''ownerContact''),
         tenant_contact := pg_text L (data ''tenantContact''),
         email := pg_text L (data ''email''),
         expiry_date := pg_text L (data ''expiryDate''),
         reminder_date := pg_text L (data ''reminderDate''),
         cc_email := pg_text L ccEmail,
         agent_name := pg_text L (data ''agentName''),
         total_payment := tp, payment_owner := po, payment_tenant := pt,
         payment_received_date1 := pg_text L (data ''paymentReceivedDate1''),
         payment_received_date2 := pg_text L (data ''paymentReceivedDate2''),
         payment_due := pd,
         agreement_status := pg_text L agreementStatus,
         biometric_date := pg_text L (data ''biometricDate'')\<rparr>"

text \<open>
  The parameters of revision A's INSERT, over the column defaults; \<open>None\<close> when the
  database refuses one of the four numeric parameters.
\<close>

definition create_row_A :: "library \<Rightarrow> nat \<Rightarrow> payload \<Rightarrow> agreement option" where
  "create_row_A L now data =
     do {
       tp \<leftarrow> pg_numeric L (or_num0 (data ''totalPayment''));
       po \<leftarrow> pg_numeric L (or_num0 (data ''paymentOwner''));
       pt \<leftarrow> pg_numeric L (or_num0 (data ''paymentTenant''));
       pd \<leftarrow> pg_numeric L (or_num0 (data ''paymentDue''));
       Some (columns_A L data (or_str (data ''ccEmail'') ''support@ramnathshetty.com'')
               (or_str (data ''agreementStatus'') ''Drafted'') tp po pt pd
               (defaults_A now))
     }"

text \<open>\<^verbatim>\<open>POST /api/agreements\<close> (\<^verbatim>\<open>part_000\<close>, lines 383-424).\<close>

definition create_A :: "library \<Rightarrow> db \<Rightarrow> nat \<Rightarrow> payload \<Rightarrow> response \<times> db" where
  "create_A L d now data =
     (if \<not> truthy (data ''ownerName'') \<or> \<not> truthy (data ''location'')
         \<or> \<not> truthy (data ''tokenNumber'')
      then (reply 400 (ErrorMsg ''Owner name, location, and token number are required''), d)
      else
        (case create_row_A L now data of
           None \<Rightarrow> (reply 500 (ErrorMsg ''Internal server error''), d)
         | Some row \<Rightarrow>
             (case insert_agreement L True d row of
                (Inl UniqueViolation, d1) \<Rightarrow>
                  (reply 409 (ErrorMsg ''Token number already exists''), d1)
              | (Inl _, d1) \<Rightarrow> (reply 500 (ErrorMsg ''Internal server error''), d1)
              | (Inr r, d1) \<Rightarrow>
                  (reply 201 (Row r),
                   insert_log d1 now (Some ''system'') ''Agreement Created''
                     (''Agreement added for '' @ js_string L (data ''ownerName'')
                        @ '' (Token: '' @ js_string L (data ''tokenNumber'') @ '')'') None))))"


text \<open>
  One snapshot row bound to the twenty-five columns of revision A's restore INSERT; the
  outer \<open>None\<close> is a numeric parameter the database refuses.
\<close>

definition snapshot_row_A :: "library \<Rightarrow> nat \<Rightarrow> payload \<Rightarrow> agreement option" where
  "snapshot_row_A L now ag =
     do {
       tp \<leftarrow> pg_numeric L (ag ''total_payment'');
       po \<leftarrow> pg_numeric L (ag ''payment_owner'');
       pt \<leftarrow> pg_numeric L (ag ''payment_tenant'');
       pd \<leftarrow> pg_numeric L (ag ''payment_due'');
       ac \<leftarrow> pg_numeric L (ag ''actual_cost'');
       com \<leftarrow> pg_numeric L (ag ''agent_commission'');
       oe \<leftarrow> pg_numeric L (ag ''other_expenses'');
       gp \<leftarrow> pg_numeric L (ag ''gross_profit'');
       np \<leftarrow> pg_numeric L (ag ''net_profit'');
       pm \<leftarrow> pg_numeric L (ag ''profit_margin'');
       Some \<lparr>agreement_id = 0,
             owner_name = pg_text L (ag ''owner_name''),
             location = pg_text L (ag ''location''),
             token_number = pg_text L (ag ''token_number''),
             agreement_date = pg_text L (ag ''agreement_date''),
             owner_contact = pg_text L (ag ''owner_contact''),
             tenant_contact = pg_text L (ag ''tenant_contact''),
             email = pg_text L (ag ''email''),
             expiry_date = pg_text L (ag ''expiry_date''),
             reminder_date = pg_text L (ag ''reminder_date''),
             cc_email = pg_text L (ag ''cc_email''),
             agent_name = pg_text L (ag ''agent_name''),
             total_payment = tp, payment_owner = po, payment_tenant = pt,
             payment_received_date1 = pg_text L (ag ''payment_received_date1''),
             payment_received_date2 = pg_text L (ag ''payment_received_date2''),
             payment_due = pd,
             agreement_status = pg_text L (ag ''agreement_status''),
             biometric_date = pg_text L (ag ''biometric_date''),
             actual_cost = ac, agent_commission = com, other_expenses = oe,
             gross_profit = gp, net_profit = np, profit_margin = pm,
             created_at = now, updated_at = Some now\<rparr>
     }"

text \<open>The \<^verbatim>\<open>for (const agreement of agreements)\<close> loop: it stops at the first error.\<close>

fun restore_loop_A :: "library \<Rightarrow> db \<Rightarrow> nat \<Rightarrow> payload list \<Rightarrow> (dberror + unit) \<times> db" where
  "restore_loop_A L d now [] = (Inr (), d)"
| "restore_loop_A L d now (ag # ags) =
     (case snapshot_row_A L now ag of
        None \<Rightarrow> (Inl DataException, d)
      | Some row \<Rightarrow>
          (case insert_agreement L True d row of
             (Inl e, d1) \<Rightarrow> (Inl e, d1)
           | (Inr r, d1) \<Rightarrow> restore_loop_A L d1 now ags))"

text \<open>
  \<^verbatim>\<open>POST /api/backup/restore\<close> (\<^verbatim>\<open>part_000\<close>, lines 181-216). The DELETE and the INSERTs
  are separate statements, each committed on its own. A body without an \<^verbatim>\<open>agreements\<close>
  array makes the loop throw after the DELETE.
\<close>

definition restore_A :: "library \<Rightarrow> db \<Rightarrow> nat \<Rightarrow> payload list option \<Rightarrow> response \<times> db" where
  "restore_A L d now agreements_field =
     (let d1 = d\<lparr>agreements := []\<rparr> in
      case agreements_field of
        None \<Rightarrow> (reply 500 (ErrorMsg ''Internal server error''), d1)
      | Some ags \<Rightarrow>
          (case restore_loop_A L d1 now ags of
             (Inl e, d2) \<Rightarrow> (reply 500 (ErrorMsg ''Internal server error''), d2)
           | (Inr u, d2) \<Rightarrow>
               (reply 200 (Restored ''Backup restored successfully'' (length ags)), d2)))"

subsection \<open>Revisions B and C: derived profit columns\<close>

text \<open>
  Revisions B, C and D have no column defaults besides \<^verbatim>\<open>created_at\<close>, and their table
  has no \<^verbatim>\<open>payment_received_date\<close> and \<^verbatim>\<open>updated_at\<close> columns (left \<open>None\<close> here).
\<close>

definition defaults_BC :: "nat \<Rightarrow> agreement" where
  "defaults_BC now =
     \<lparr>agreement_id = 0, owner_name = None, location = None, token_number = None,
      agreement_date = None, owner_contact = None, tenant_contact = None, email = None,
      expiry_date = None, reminder_date = None, cc_email = None, agent_name = None,
      total_payment = None, payment_owner = None, payment_tenant = None,
      payment_received_date1 = None, payment_received_date2 = None,
      payment_due = None, agreement_status = None, biometric_date = None,
      actual_cost = None, agent_commission = None, other_expenses = None,
      gross_profit = None, net_profit = None, profit_margin = None,
      created_at = now, updated_at = None\<rparr>"

text \<open>
  The financial calculation and the twenty-three parameters, which the create and update
  handlers of revisions B, C and D spell out identically (\<^verbatim>\<open>part_000\<close> lines 797-829 and
  857-886, \<^verbatim>\<open>part_001\<close> lines 477-504 and 551-580). Only the payload fields named here are
  read.
\<close>

definition columns_BC :: "library \<Rightarrow> payload \<Rightarrow> agreement \<Rightarrow> agreement" where
  "columns_BC L data row =
     (let totalPayment = or_zero (parseFloat L (data ''totalPayment''));
          actualCost = or_zero (parseFloat L (data ''actualCost''));
          agentCommission = or_zero (parseFloat L (data ''agentCommission''));
          otherExpenses = or_zero (parseFloat L (data ''otherExpenses''));
          grossProfit = totalPayment - actualCost;
          netProfit = grossProfit - agentCommission - otherExpenses;
          profitMargin = (if totalPayment > 0 then (netProfit / totalPayment) * 100 else 0)
      in row\<lparr>owner_name := pg_text L (data ''ownerName''),
             location := pg_text L (data ''location''),
             token_number := pg_text L (data ''tokenNumber''),
             agreement_date := pg_text L (or_null (data ''agreementDate'')),
             owner_contact := pg_text L (data ''ownerContact''),
             tenant_contact := pg_text L (data ''tenantContact''),
             email := pg_text L (data ''email''),
             expiry_date := pg_text L (or_null (data ''expiryDate'')),
             reminder_date := pg_text L (or_null (data ''reminderDate'')),
             cc_email := pg_text L (data ''ccEmail''),
             agent_name := pg_text L (data ''agentName''),
             total_payment := Some totalPayment,
             payment_owner := Some (or_zero (parseFloat L (data ''paymentOwner''))),
             payment_tenant := Some (or_zero (parseFloat L (data ''paymentTenant''))),
             payment_due := Some (or_zero (parseFloat L (data ''paymentDue''))),
             agreement_status := pg_text L (data ''agreementStatus''),
             biometric_date := pg_text L (or_null (data ''biometricDate'')),
             actual_cost := Some actualCost,
             agent_commission := Some agentCommission,
             other_expenses := Some otherExpenses,
             gross_profit := Some grossProfit,
             net_profit := Some netProfit,
             profit_margin := Some profitMargin\<rparr>)"

text \<open>\<^verbatim>\<open>POST /api/agreements\<close> of revision B (\<^verbatim>\<open>part_000\<close>, lines 794-836).\<close>

definition create_B :: "library \<Rightarrow> db \<Rightarrow> nat \<Rightarrow> payload \<Rightarrow> response \<times> db" where
  "create_B L d now data =
     (case insert_agreement L False d (columns_BC L data (defaults_BC now)) of
        (Inl e, d1) \<Rightarrow> (reply 500 (ErrorMsg ''Failed to save agreement''), d1)
      | (Inr r, d1) \<Rightarrow> (reply 200 (Row r), d1))"

text \<open>
  \<^verbatim>\<open>POST /api/agreements\<close> of revision C (\<^verbatim>\<open>part_001\<close>, lines 464-519), behind
  \<^verbatim>\<open>authenticateToken\<close>: \<open>u\<close> is \<^verbatim>\<open>req.user\<close>, \<open>ip\<close> is \<^verbatim>\<open>req.ip\<close>.
\<close>

definition token_count :: "library \<Rightarrow> db \<Rightarrow> jsval option \<Rightarrow> nat" where
  "token_count L d tokenNumber =
     length (filter (\<lambda>r. token_number r \<noteq> None \<and> token_number r = pg_text L tokenNumber)
               (agreements d))"

text \<open>
  The handler awaits two statements on the agreements table, the count and the INSERT;
  another request can run between them, so each is a step of its own. \<open>create_C_check\<close>
  is the early response (if any), \<open>create_C_insert\<close> the rest of the handler.
\<close>

definition create_C_check :: "library \<Rightarrow> db \<Rightarrow> payload \<Rightarrow> response option" where
  "create_C_check L d data =
     (if token_count L d (data ''tokenNumber'') > 0
      then Some (reply 400 (ErrorMsg ''Token number already exists''))
      else None)"

definition create_C_insert ::
  "library \<Rightarrow> db \<Rightarrow> nat \<Rightarrow> token_claims \<Rightarrow> string option \<Rightarrow> payload \<Rightarrow> response \<times> db" where
  "create_C_insert L d now u ip data =
     (case insert_agreement L False d (columns_BC L data (defaults_BC now)) of
        (Inl e, d1) \<Rightarrow> (reply 500 (ErrorMsg ''Failed to save agreement''), d1)
      | (Inr r, d1) \<Rightarrow>
          (reply 200 (Row r),
           insert_log d1 now (Some (claim_username u)) ''CREATE_AGREEMENT''
             (''Created agreement with token: '' @ js_string L (data ''tokenNumber'')) ip))"

definition create_C ::
  "library \<Rightarrow> db \<Rightarrow> nat \<Rightarrow> token_claims \<Rightarrow> string option \<Rightarrow> payload \<Rightarrow> response \<times> db" where
  "create_C L d now u ip data =
     (case create_C_check L d data of
        Some r \<Rightarrow> (r, d)
      | None \<Rightarrow> create_C_insert L d now u ip data)"

text \<open>
  \<^verbatim>\<open>PUT /api/agreements/:id\<close> of revision C (\<^verbatim>\<open>part_001\<close>, lines 537-595). When no row has
  the id the handler still answers 200, with \<^verbatim>\<open>result.rows[0]\<close> undefined.
\<close>

definition update_C ::
  "library \<Rightarrow> db \<Rightarrow> nat \<Rightarrow> token_claims \<Rightarrow> string option \<Rightarrow> string \<Rightarrow> payload \<Rightarrow> response \<times> db" where
  "update_C L d now u ip idp data =
     (case pg_integer_str L idp of
        None \<Rightarrow> (reply 500 (ErrorMsg ''Failed to update agreement''), d)
      | Some i \<Rightarrow>
          if filter (\<lambda>r. token_number r \<noteq> None
                          \<and> token_number r = pg_text L (data ''tokenNumber'')
                          \<and> int (agreement_id r) \<noteq> i) (agreements d) \<noteq> []
          then (reply 400 (ErrorMsg
                  ''Another agreement with this token number already exists.''), d)
          else
            (case update_agreement L False d i (columns_BC L data) of
               (Inl e, d1) \<Rightarrow> (reply 500 (ErrorMsg ''Failed to update agreement''), d1)
             | (Inr rows, d1) \<Rightarrow>
                 (reply 200 (case rows of [] \<Rightarrow> Undefined | r # _ \<Rightarrow> Row r),
                  insert_log d1 now (Some (claim_username u)) ''UPDATE_AGREEMENT''
                    (''Updated agreement with token: '' @ js_string L (data ''tokenNumber''))
                    ip)))"

subsection \<open>Revision B: restore inside BEGIN and COMMIT\<close>

record backup =
  backup_agreements :: "payload list option"
  backup_users :: "payload list option"
  backup_settings :: "payload option"

definition snapshot_row_B :: "library \<Rightarrow> nat \<Rightarrow> payload \<Rightarrow> agreement option" where
  "snapshot_row_B L now ag =
     do {
       tp \<leftarrow> pg_numeric L (ag ''total_payment'');
       po \<leftarrow> pg_numeric L (ag ''payment_owner'');
       pt \<leftarrow> pg_numeric L (ag ''payment_tenant'');
       pd \<leftarrow> pg_numeric L (ag ''payment_due'');
       ac \<leftarrow> pg_numeric L (ag ''actual_cost'');
       com \<leftarrow> pg_numeric L (ag ''agent_commission'');
       oe \<leftarrow> pg_numeric L (ag ''other_expenses'');
       gp \<leftarrow> pg_numeric L (ag ''gross_profit'');
       np \<leftarrow> pg_numeric L (ag ''net_profit'');
       pm \<leftarrow> pg_numeric L (ag ''profit_margin'');
       Some ((defaults_BC now)
             \<lparr>owner_name := pg_text L (ag ''owner_name''),
              location := pg_text L (ag ''location''),
              token_number := pg_text L (ag ''token_number''),
              agreement_date := pg_text L (ag ''agreement_date''),
              owner_contact := pg_text L (ag ''owner_contact''),
              tenant_contact := pg_text L (ag ''tenant_contact''),
              email := pg_text L (ag ''email''),
              expiry_date := pg_text L (ag ''expiry_date''),
              reminder_date := pg_text L (ag ''reminder_date''),
              cc_email := pg_text L (ag ''cc_email''),
              agent_name := pg_text L (ag ''agent_name''),
              total_payment := tp, payment_owner := po, payment_tenant := pt,
              payment_due := pd,
              agreement_status := pg_text L (ag ''agreement_status''),
              biometric_date := pg_text L (ag ''biometric_date''),
              actual_cost := ac, agent_commission := com, other_expenses := oe,
              gross_profit := gp, net_profit := np, profit_margin := pm\<rparr>)
     }"

fun restore_agreements_B ::
  "library \<Rightarrow> db \<Rightarrow> nat \<Rightarrow> payload list \<Rightarrow> (dberror + unit) \<times> db" where
  "restore_agreements_B L d now [] = (Inr (), d)"
| "restore_agreements_B L d now (ag # ags) =
     (case snapshot_row_B L now ag of
        None \<Rightarrow> (Inl DataException, d)
      | Some row \<Rightarrow>
          (case insert_agreement L False d row of
             (Inl e, d1) \<Rightarrow> (Inl e, d1)
           | (Inr r, d1) \<Rightarrow> restore_agreements_B L d1 now ags))"

text \<open>
  \<^verbatim>\<open>const pwd = (u.password && u.password !== '***HIDDEN***') ? u.password : 'password'\<close>
\<close>

definition restored_password :: "payload \<Rightarrow> jsval option" where
  "restored_password u =
     (if truthy (u ''password'') \<and> u ''password'' \<noteq> Some (JStr ''***HIDDEN***'')
      then u ''password'' else Some (JStr ''password''))"

text \<open>\<^verbatim>\<open>u.created_at || new Date()\<close>, bound to a timestamp column.\<close>

definition restored_created_at :: "library \<Rightarrow> nat \<Rightarrow> payload \<Rightarrow> nat option" where
  "restored_created_at L now u =
     (if truthy (u ''created_at'')
      then (case u ''created_at'' of Some (JStr s) \<Rightarrow> pg_timestamp_str L s | _ \<Rightarrow> None)
      else Some now)"

fun restore_users_B :: "library \<Rightarrow> db \<Rightarrow> nat \<Rightarrow> payload list \<Rightarrow> (dberror + unit) \<times> db" where
  "restore_users_B L d now [] = (Inr (), d)"
| "restore_users_B L d now (u # us) =
     (case restored_created_at L now u of
        None \<Rightarrow> (Inl DataException, d)
      | Some created \<Rightarrow>
          (case insert_user d (pg_text L (u ''username'')) (pg_text L (restored_password u))
                  (pg_text L (u ''role'')) created of
             (Inl e, d1) \<Rightarrow> (Inl e, d1)
           | (Inr r, d1) \<Rightarrow> restore_users_B L d1 now us))"

text \<open>\<^verbatim>\<open>UPDATE system_settings SET ... WHERE id = 1\<close> from the snapshot's settings object.\<close>

definition restore_settings_B :: "library \<Rightarrow> db \<Rightarrow> payload \<Rightarrow> (dberror + unit) \<times> db" where
  "restore_settings_B L d s =
     (case do {
             rd \<leftarrow> pg_integer L (s ''reminder_days_before'');
             st \<leftarrow> pg_integer L (s ''session_timeout'');
             mr \<leftarrow> pg_integer L (s ''max_records_per_page'');
             Some \<lparr>default_cc_email = pg_text L (s ''default_cc_email''),
                   company_name = pg_text L (s ''company_name''),
                   reminder_days_before = rd,
                   date_format = pg_text L (s ''date_format''),
                   currency_symbol = pg_text L (s ''currency_symbol''),
                   session_timeout = st,
                   max_records_per_page = mr\<rparr>
           } of
        None \<Rightarrow> (Inl DataException, d)
      | Some row \<Rightarrow>
          (Inr (), d\<lparr>system_settings := map_option (\<lambda>old. row) (system_settings d)\<rparr>))"

text \<open>The statements between BEGIN and COMMIT, stopping at the first error.\<close>

definition restore_body_B :: "library \<Rightarrow> db \<Rightarrow> nat \<Rightarrow> backup \<Rightarrow> (dberror + unit) \<times> db" where
  "restore_body_B L d now backupData =
     (let d1 = d\<lparr>activity_logs := [], agreements := [], users := []\<rparr> in
      case (case backup_agreements backupData of
              None \<Rightarrow> (Inr (), d1)
            | Some ags \<Rightarrow> restore_agreements_B L d1 now ags) of
        (Inl e, d2) \<Rightarrow> (Inl e, d2)
      | (Inr x, d2) \<Rightarrow>
          (case (case backup_users backupData of
                   None \<Rightarrow> (Inr (), d2)
                 | Some us \<Rightarrow> restore_users_B L d2 now us) of
             (Inl e, d3) \<Rightarrow> (Inl e, d3)
           | (Inr y, d3) \<Rightarrow>
               (case backup_settings backupData of
                  None \<Rightarrow> (Inr (), d3)
                | Some s \<Rightarrow> restore_settings_B L d3 s)))"

text \<open>
  ROLLBACK gives every table back as it was at BEGIN; a sequence keeps the values it
  has handed out.
\<close>

definition rollback :: "db \<Rightarrow> db \<Rightarrow> db" where
  "rollback d0 d = d0\<lparr>users_seq := users_seq d, agreements_seq := agreements_seq d\<rparr>"

text \<open>
  \<^verbatim>\<open>POST /api/backup/restore\<close> of revision B (\<^verbatim>\<open>part_000\<close>, lines 1130-1192). The
  statements are taken to run on one connection, so that BEGIN, COMMIT and ROLLBACK
  bracket them.
\<close>

definition restore_B :: "library \<Rightarrow> db \<Rightarrow> nat \<Rightarrow> backup \<Rightarrow> response \<times> db" where
  "restore_B L d now backupData =
     (case restore_body_B L d now backupData of
        (Inl e, d1) \<Rightarrow> (reply 500 (ErrorMsg ''Failed to restore backup''), rollback d d1)
      | (Inr x, d1) \<Rightarrow> (reply 200 (Message ''Backup restored successfully''), d1))"

subsection \<open>Revision C: JWT middleware, bcrypt login, user deletion\<close>

text \<open>\<^verbatim>\<open>String.prototype.split\<close> with a one-character separator.\<close>

fun js_split :: "char \<Rightarrow> string \<Rightarrow> string list" where
  "js_split c [] = [[]]"
| "js_split c (x # xs) =
     (if x = c then [] # js_split c xs
      else (case js_split c xs of
              [] \<Rightarrow> [[x]]
            | w # ws \<Rightarrow> (x # w) # ws))"

text \<open>\<^verbatim>\<open>authHeader && authHeader.split(' ')[1]\<close>; \<open>None\<close> is a falsy token.\<close>

definition bearer_token :: "string option \<Rightarrow> string option" where
  "bearer_token authHeader =
     (case authHeader of
        None \<Rightarrow> None
      | Some h \<Rightarrow>
          if h = [] then None
          else (case js_split CHR '' '' h of
                  a # t # rest \<Rightarrow> (if t = [] then None else Some t)
                | _ \<Rightarrow> None))"

text \<open>
  \<^verbatim>\<open>authenticateToken\<close> (\<^verbatim>\<open>part_001\<close>, lines 131-146): \<open>Inl\<close> is the response sent instead of
  calling \<^verbatim>\<open>next()\<close>, \<open>Inr\<close> the decoded token stored in \<^verbatim>\<open>req.user\<close>.
\<close>

definition authenticateToken :: "library \<Rightarrow> nat \<Rightarrow> string option \<Rightarrow> response + token_claims" where
  "authenticateToken L now authHeader =
     (case bearer_token authHeader of
        None \<Rightarrow> Inl (reply 401 (ErrorMsg ''Access token required''))
      | Some token \<Rightarrow>
          (case jwt_verify L token now of
             None \<Rightarrow> Inl (reply 403 (ErrorMsg ''Invalid or expired token''))
           | Some user \<Rightarrow> Inr user))"

text \<open>\<^verbatim>\<open>checkAdmin\<close> (\<^verbatim>\<open>part_001\<close>, lines 149-155).\<close>

definition checkAdmin :: "token_claims option \<Rightarrow> response + token_claims" where
  "checkAdmin req_user =
     (case req_user of
        Some user \<Rightarrow>
          if claim_role user = ''admin'' then Inr user
          else Inl (reply 403 (ErrorMsg ''Forbidden: Admin access required''))
      | None \<Rightarrow> Inl (reply 403 (ErrorMsg ''Forbidden: Admin access required'')))"

text \<open>
  A route registered behind \<^verbatim>\<open>authenticateToken\<close>, and one registered behind
  \<^verbatim>\<open>authenticateToken, checkAdmin\<close>: the handler runs only when the middleware calls
  \<^verbatim>\<open>next()\<close>.
\<close>

definition protected ::
  "library \<Rightarrow> nat \<Rightarrow> string option \<Rightarrow> (token_claims \<Rightarrow> db \<Rightarrow> response \<times> db) \<Rightarrow> db \<Rightarrow> response \<times> db" where
  "protected L now authHeader handler d =
     (case authenticateToken L now authHeader of
        Inl r \<Rightarrow> (r, d)
      | Inr user \<Rightarrow> handler user d)"

definition admin_only ::
  "library \<Rightarrow> nat \<Rightarrow> string option \<Rightarrow> (token_claims \<Rightarrow> db \<Rightarrow> response \<times> db) \<Rightarrow> db \<Rightarrow> response \<times> db" where
  "admin_only L now authHeader handler d =
     protected L now authHeader
       (\<lambda>user d'. case checkAdmin (Some user) of
                    Inl r \<Rightarrow> (r, d')
                  | Inr user' \<Rightarrow> handler user' d') d"


text \<open>
  \<^verbatim>\<open>DELETE /api/users/:id\<close> of revision C (\<^verbatim>\<open>part_001\<close>, lines 360-373), registered behind
  \<^verbatim>\<open>authenticateToken, checkAdmin\<close>.
\<close>

definition delete_user_C :: "library \<Rightarrow> string \<Rightarrow> token_claims \<Rightarrow> db \<Rightarrow> response \<times> db" where
  "delete_user_C L idp req_user d =
     (if parse_int_str L idp = Some (int (claim_id req_user))
      then (reply 400 (ErrorMsg ''Admin cannot delete their own account.''), d)
      else
        (case pg_integer_str L idp of
           None \<Rightarrow> (reply 500 (ErrorMsg ''Failed to delete user''), d)
         | Some i \<Rightarrow>
             (reply 204 NoContent,
              d\<lparr>users := filter (\<lambda>r. int (user_id r) \<noteq> i) (users d)\<rparr>)))"

subsection \<open>Revision E: argon2 login\<close>



subsection \<open>The specification's derivation\<close>


text \<open>A monetary input of the payload, 0 when absent or not numeric.\<close>

definition money :: "library \<Rightarrow> payload \<Rightarrow> string \<Rightarrow> rat" where
  "money L data k = or_zero (parseFloat L (data k))"

subsection \<open>Sample data\<close>

text \<open>
  A library for the examples. Its text routines read and print unsigned decimal
  numerals, which is all the examples pass to them; its hashing and token schemes are
  stand-ins that accept exactly one password per stored form and two fixed tokens.
\<close>

definition digit_of :: "char \<Rightarrow> nat option" where
  "digit_of c = (let n = (of_char c :: nat) in if 48 \<le> n \<and> n \<le> 57 then Some (n - 48) else None)"

fun decimal_acc :: "nat \<Rightarrow> string \<Rightarrow> nat option" where
  "decimal_acc n [] = Some n"
| "decimal_acc n (c # cs) =
     (case digit_of c of None \<Rightarrow> None | Some k \<Rightarrow> decimal_acc (10 * n + k) cs)"

definition decimal :: "string \<Rightarrow> nat option" where
  "decimal s = (if s = [] then None else decimal_acc 0 s)"

fun digits :: "nat \<Rightarrow> string" where
  "digits n = (if n < 10 then [char_of (48 + n)] else digits (n div 10) @ [char_of (48 + n mod 10)])"

definition sample_admin :: token_claims where
  "sample_admin = \<lparr>claim_id = 1, claim_username = ''admin'', claim_role = ''admin''\<rparr>"

definition sample_agent :: token_claims where
  "sample_agent = \<lparr>claim_id = 2, claim_username = ''ravi'', claim_role = ''agent''\<rparr>"

definition sample_library :: library where
  "sample_library =
     \<lparr>parse_float_str = (\<lambda>s. map_option of_nat (decimal s)),
      parse_int_str = (\<lambda>s. map_option int (decimal s)),
      num_to_str = (\<lambda>r. digits (nat \<lfloor>r\<rfloor>)),
      pg_numeric_str = (\<lambda>s. map_option of_nat (decimal s)),
      pg_integer_str = (\<lambda>s. map_option int (decimal s)),
      pg_timestamp_str = decimal,
      row_fits = (\<lambda>r. True),
      bcrypt_compare = (\<lambda>pw h. case pw of Some (JStr p) \<Rightarrow> Some (h = ''bcrypt:'' @ p) | _ \<Rightarrow> None),
      argon2_verify = (\<lambda>h pw. case pw of Some (JStr p) \<Rightarrow> Some (h = ''argon2:'' @ p) | _ \<Rightarrow> None),
      jwt_sign = (\<lambda>c now. ''token-of-'' @ claim_username c),
      jwt_verify = (\<lambda>t now. if t = ''token-of-admin'' then Some sample_admin
                            else if t = ''token-of-ravi'' then Some sample_agent
                            else None)\<rparr>"

definition empty_db :: db where
  "empty_db = \<lparr>users = [], users_seq = 0, agreements = [], agreements_seq = 0,
               activity_logs = [], system_settings = None\<rparr>"

definition mk_user :: "nat \<Rightarrow> string \<Rightarrow> string \<Rightarrow> string \<Rightarrow> user" where
  "mk_user i u p r =
     \<lparr>user_id = i, username = u, password = p, full_name = None, role = r,
      user_status = None, user_created_at = 0, last_login = None\<rparr>"

text \<open>
  Users as revision B seeds and stores them (plain text), read by revision A's login:
  the seeded admin, and an account created later.
\<close>

definition legacy_db :: db where
  "legacy_db = empty_db\<lparr>users := [mk_user 1 ''admin'' ''admin123'' ''admin'',
                                    mk_user 2 ''bob'' ''hunter2'' ''user''],
                         users_seq := 2\<rparr>"

text \<open>Users with the stand-in bcrypt and argon2 forms.\<close>

definition bcrypt_db :: db where
  "bcrypt_db = empty_db\<lparr>users := [mk_user 1 ''admin'' ''bcrypt:admin123'' ''admin'',
                                    mk_user 2 ''ravi'' ''bcrypt:ravi-pw'' ''agent''],
                         users_seq := 2\<rparr>"


text \<open>The specification's concrete create request.\<close>

definition scenario :: payload where
  "scenario = map_of
     [(''ownerName'', JStr ''A''), (''location'', JStr ''L1''), (''tokenNumber'', JStr ''T-100''),
      (''totalPayment'', JNum 1000), (''actualCost'', JNum 400),
      (''agentCommission'', JNum 50), (''otherExpenses'', JNum 10)]"

text \<open>A request whose \<^verbatim>\<open>paymentDue\<close> is not the difference of its payments.\<close>

definition due_request :: payload where
  "due_request = map_of
     [(''ownerName'', JStr ''A''), (''location'', JStr ''L1''), (''tokenNumber'', JStr ''T-100''),
      (''totalPayment'', JNum 1000), (''paymentOwner'', JNum 200),
      (''paymentTenant'', JNum 300), (''paymentDue'', JNum 999)]"

text \<open>The store after the specification's create request, in revision C and in revision A.\<close>

definition one_agreement_db :: db where
  "one_agreement_db =
     snd (create_C sample_library empty_db 0 sample_admin None scenario)"

definition one_agreement_db_A :: db where
  "one_agreement_db_A = snd (create_A sample_library empty_db 0 scenario)"

text \<open>A snapshot that names one token twice.\<close>

definition snapshot_row :: payload where
  "snapshot_row = map_of
     [(''owner_name'', JStr ''B''), (''location'', JStr ''L2''), (''token_number'', JStr ''T-200'')]"

definition duplicate_snapshot :: "payload list" where
  "duplicate_snapshot = [snapshot_row, snapshot_row]"



text \<open>The rows that the sample requests produce.\<close>

definition scenario_row :: agreement where
  "scenario_row = (columns_BC sample_library scenario (defaults_BC 0))\<lparr>agreement_id := 1\<rparr>"


definition created_due_row :: agreement where
  "created_due_row = (columns_BC sample_library due_request (defaults_BC 5))\<lparr>agreement_id := 1\<rparr>"

definition scenario_row_A :: agreement where
  "scenario_row_A =
     (columns_A sample_library scenario (Some (JStr ''support@ramnathshetty.com''))
        (Some (JStr ''Drafted'')) (Some 1000) (Some 0) (Some 0) (Some 0)
        (defaults_A 0))\<lparr>agreement_id := 1\<rparr>"


section \<open>Properties\<close>

subsection \<open>Conversions of string payload values\<close>

lemma truthy_str [simp]: "truthy (Some (JStr s)) = (s \<noteq> [])"
  by (simp add: truthy_def)

lemma js_string_str [simp]: "js_string L (Some (JStr s)) = s"
  by (simp add: js_string_def)

lemma pg_text_str [simp]: "pg_text L (Some (JStr s)) = Some s"
  by (simp add: pg_text_def js_string_def)

lemma select_insert_log [simp]:
  "select_users_by_username (insert_log d now a b c e) u = select_users_by_username d u"
  by (simp add: select_users_by_username_def insert_log_def)

subsection \<open>Credential migration on login (revision A)\<close>

lemma defaultPasswords_nonempty: "defaultPasswords u = Some p \<Longrightarrow> u \<noteq> [] \<and> p \<noteq> []"
  by (auto simp: defaultPasswords_def split: if_splits)

lemma select_after_update:
  "select_users_by_username (update_password_by_username d (Some u) h) (Some u)
     = map (\<lambda>r. r\<lparr>password := h\<rparr>) (select_users_by_username d (Some u))"
  by (simp add: select_users_by_username_def update_password_by_username_def filter_map o_def)

lemma simpleHash_hunter2: "simpleHash ''hunter2'' = ''aHVudGVyMg==''"
  by (simp add: simpleHash_def b64_char_def b64_alphabet_def)

lemma simpleHash_admin123: "simpleHash ''admin123'' = ''YWRtaW4xMjM=''"
  by (simp add: simpleHash_def b64_char_def b64_alphabet_def)

lemma select_legacy_bob:
  "select_users_by_username legacy_db (Some ''bob'') = [mk_user 2 ''bob'' ''hunter2'' ''user'']"
  by (simp add: select_users_by_username_def legacy_db_def empty_db_def mk_user_def)

lemma select_legacy_admin:
  "select_users_by_username legacy_db (Some ''admin'')
     = [mk_user 1 ''admin'' ''admin123'' ''admin'']"
  by (simp add: select_users_by_username_def legacy_db_def empty_db_def mk_user_def)

text \<open>
  Claim C1, as the code has it. The migration of revision A's login is keyed by the table
  of default passwords, not by the stored form: when the account exists, the submitted
  password is the default password of that username and the stored credential is not
  its base64 form, the login answers 200 "Login successful (password migrated)" and has
  by then set the stored credential of that username to the base64 form; a second login
  with the same password matches directly, answers 200 "Login successful" and only
  appends a log entry. With any other password that is not the base64 preimage of the
  stored credential, the login is rejected with 401 and changes nothing.
\<close>

theorem login_A_default_password_migration:
  assumes sel: "select_users_by_username d (Some u) = usr # rest"
      and ne: "simpleHash p \<noteq> password usr"
  shows "(defaultPasswords u = Some p
          \<and> login_A L d now (Some (JStr u)) (Some (JStr p)) = (resp, d') \<longrightarrow>
            resp = reply 200 (LoginA ''Login successful (password migrated)'' (username usr)
                     (role usr) ''agreement-manager-token'')
            \<and> users d' = map (\<lambda>r. if username r = u then r\<lparr>password := simpleHash p\<rparr> else r)
                            (users d)
            \<and> login_A L d' now' (Some (JStr u)) (Some (JStr p))
              = (reply 200 (LoginA ''Login successful'' (username usr) (role usr)
                   ''agreement-manager-token''),
                 insert_log d' now' (Some u) ''Login'' ''User logged in successfully'' None))
       \<and> (defaultPasswords u \<noteq> Some p \<and> u \<noteq> [] \<and> p \<noteq> [] \<longrightarrow>
            login_A L d now (Some (JStr u)) (Some (JStr p))
              = (reply 401 (ErrorMsg ''Invalid username or password''), d))"
proof -
  have neg: "defaultPasswords u \<noteq> Some p \<and> u \<noteq> [] \<and> p \<noteq> [] \<longrightarrow>
            login_A L d now (Some (JStr u)) (Some (JStr p))
              = (reply 401 (ErrorMsg ''Invalid username or password''), d)"
    using sel ne by (simp add: login_A_def Let_def)
  have pos: "resp = reply 200 (LoginA ''Login successful (password migrated)'' (username usr)
                     (role usr) ''agreement-manager-token'')
     \<and> users d' = map (\<lambda>r. if username r = u then r\<lparr>password := simpleHash p\<rparr> else r)
                     (users d)
     \<and> login_A L d' now' (Some (JStr u)) (Some (JStr p))
       = (reply 200 (LoginA ''Login successful'' (username usr) (role usr)
            ''agreement-manager-token''),
          insert_log d' now' (Some u) ''Login'' ''User logged in successfully'' None)"
    if dp: "defaultPasswords u = Some p"
      and run: "login_A L d now (Some (JStr u)) (Some (JStr p)) = (resp, d')"
  proof -
    from dp have nz: "u \<noteq> []" "p \<noteq> []" using defaultPasswords_nonempty by blast+
    let ?d1 = "update_password_by_username d (Some u) (simpleHash p)"
    let ?d2 = "insert_log ?d1 now (Some u) ''Login'' ''User logged in and password migrated'' None"
    have first: "login_A L d now (Some (JStr u)) (Some (JStr p))
             = (reply 200 (LoginA ''Login successful (password migrated)'' (username usr)
                  (role usr) ''agreement-manager-token''), ?d2)"
      using sel dp ne nz by (simp add: login_A_def Let_def)
    with run have resp: "resp = reply 200 (LoginA ''Login successful (password migrated)''
                     (username usr) (role usr) ''agreement-manager-token'')"
      and d': "d' = ?d2" by simp_all
    have stored: "users d' = map (\<lambda>r. if username r = u then r\<lparr>password := simpleHash p\<rparr> else r)
                               (users d)"
      by (simp add: d' insert_log_def update_password_by_username_def)
    have sel': "select_users_by_username d' (Some u)
                  = usr\<lparr>password := simpleHash p\<rparr> # map (\<lambda>r. r\<lparr>password := simpleHash p\<rparr>) rest"
      by (simp add: d' select_after_update sel)
    have second: "login_A L d' now' (Some (JStr u)) (Some (JStr p))
             = (reply 200 (LoginA ''Login successful'' (username usr) (role usr)
                  ''agreement-manager-token''),
                insert_log d' now' (Some u) ''Login'' ''User logged in successfully'' None)"
      using nz by (simp add: login_A_def sel' Let_def)
    from resp stored second show ?thesis by blast
  qed
  from pos neg show ?thesis by blast
qed

text \<open>
  The theorem at the admin account that revision B seeds with the plain text
  \<^verbatim>\<open>admin123\<close>: the first login migrates, the second matches directly.
\<close>

theorem login_A_default_password_migration_witness:
  "select_users_by_username legacy_db (Some ''admin'') = [mk_user 1 ''admin'' ''admin123'' ''admin'']
   \<and> defaultPasswords ''admin'' = Some ''admin123''
   \<and> simpleHash ''admin123'' \<noteq> password (mk_user 1 ''admin'' ''admin123'' ''admin'')
   \<and> fst (login_A sample_library legacy_db 0 (Some (JStr ''admin'')) (Some (JStr ''admin123'')))
       = reply 200 (LoginA ''Login successful (password migrated)'' ''admin'' ''admin''
                     ''agreement-manager-token'')
   \<and> map password (users (snd (login_A sample_library legacy_db 0 (Some (JStr ''admin''))
                                   (Some (JStr ''admin123'')))))
       = [''YWRtaW4xMjM='', ''hunter2'']
   \<and> fst (login_A sample_library
             (snd (login_A sample_library legacy_db 0 (Some (JStr ''admin''))
                     (Some (JStr ''admin123''))))
             1 (Some (JStr ''admin'')) (Some (JStr ''admin123'')))
       = reply 200 (LoginA ''Login successful'' ''admin'' ''admin'' ''agreement-manager-token'')
   \<and> simpleHash ''letmein'' \<noteq> password (mk_user 1 ''admin'' ''admin123'' ''admin'')
   \<and> defaultPasswords ''admin'' \<noteq> Some ''letmein''
   \<and> login_A sample_library legacy_db 0 (Some (JStr ''admin'')) (Some (JStr ''letmein''))
       = (reply 401 (ErrorMsg ''Invalid username or password''), legacy_db)"
proof -
  have sel: "select_users_by_username legacy_db (Some ''admin'')
               = mk_user 1 ''admin'' ''admin123'' ''admin'' # []"
    by (rule select_legacy_admin)
  have dp: "defaultPasswords ''admin'' = Some ''admin123''"
    by (simp add: defaultPasswords_def)
  have ne: "simpleHash ''admin123'' \<noteq> password (mk_user 1 ''admin'' ''admin123'' ''admin'')"
    by (simp add: simpleHash_admin123 mk_user_def)
  have ne2: "simpleHash ''letmein'' \<noteq> password (mk_user 1 ''admin'' ''admin123'' ''admin'')"
    by (simp add: simpleHash_def b64_char_def b64_alphabet_def mk_user_def)
  have dp2: "defaultPasswords ''admin'' \<noteq> Some ''letmein''"
    by (simp add: defaultPasswords_def)
  obtain resp d' where run:
    "login_A sample_library legacy_db 0 (Some (JStr ''admin'')) (Some (JStr ''admin123''))
       = (resp, d')"
    by (cases "login_A sample_library legacy_db 0 (Some (JStr ''admin''))
                 (Some (JStr ''admin123''))")
  from login_A_default_password_migration [OF sel ne, of sample_library 0 resp d' 1] dp run
  have m: "resp = reply 200 (LoginA ''Login successful (password migrated)''
                   (username (mk_user 1 ''admin'' ''admin123'' ''admin''))
                   (role (mk_user 1 ''admin'' ''admin123'' ''admin'')) ''agreement-manager-token'')
         \<and> users d' = map (\<lambda>r. if username r = ''admin''
                                 then r\<lparr>password := simpleHash ''admin123''\<rparr> else r)
                         (users legacy_db)
         \<and> login_A sample_library d' 1 (Some (JStr ''admin'')) (Some (JStr ''admin123''))
           = (reply 200 (LoginA ''Login successful''
                (username (mk_user 1 ''admin'' ''admin123'' ''admin''))
                (role (mk_user 1 ''admin'' ''admin123'' ''admin'')) ''agreement-manager-token''),
              insert_log d' 1 (Some ''admin'') ''Login'' ''User logged in successfully'' None)"
    by blast
  from login_A_default_password_migration [OF sel ne2, of sample_library 0] dp2
  have rej: "login_A sample_library legacy_db 0 (Some (JStr ''admin'')) (Some (JStr ''letmein''))
       = (reply 401 (ErrorMsg ''Invalid username or password''), legacy_db)"
    by simp
  have pw: "map password (users d') = [''YWRtaW4xMjM='', ''hunter2'']"
    using m by (simp add: legacy_db_def empty_db_def mk_user_def simpleHash_admin123)
  show ?thesis
    using sel dp ne ne2 dp2 m pw rej by (simp add: run mk_user_def)
qed

text \<open>
  Claim C1 as stated fails: the account \<^verbatim>\<open>bob\<close> stores the legacy plain text of its
  password, which does not verify as base64, and the login with that password is
  rejected with 401 and changes nothing.
\<close>

theorem login_A_legacy_plaintext_rejected:
  "select_users_by_username legacy_db (Some ''bob'') = [mk_user 2 ''bob'' ''hunter2'' ''user'']
   \<and> password (mk_user 2 ''bob'' ''hunter2'' ''user'') = ''hunter2''
   \<and> simpleHash ''hunter2'' \<noteq> password (mk_user 2 ''bob'' ''hunter2'' ''user'')
   \<and> login_A sample_library legacy_db 0 (Some (JStr ''bob'')) (Some (JStr ''hunter2''))
       = (reply 401 (ErrorMsg ''Invalid username or password''), legacy_db)"
  by (simp add: login_A_def select_legacy_bob simpleHash_hunter2 defaultPasswords_def)
     (simp add: mk_user_def)

subsection \<open>Derived financial columns (revisions A, B and C)\<close>

lemma insert_agreement_Inr:
  "insert_agreement L nn d row = (Inr r, d1) \<Longrightarrow>
     r = row\<lparr>agreement_id := Suc (agreements_seq d)\<rparr> \<and> agreements d1 = agreements d @ [r]
     \<and> \<not> token_taken (agreements d) (token_number row)"
  by (auto simp: insert_agreement_def Let_def split: if_splits)

lemma insert_agreement_Inl:
  "insert_agreement L nn d row = (Inl e, d1) \<Longrightarrow> agreements d1 = agreements d"
  by (auto simp: insert_agreement_def Let_def split: if_splits)

lemma token_taken_iff:
  "token_taken rows t = (\<exists>r \<in> set rows. token_number r = t \<and> t \<noteq> None)"
  unfolding token_taken_def set_map image_iff by metis

lemma token_count_taken:
  "(token_count L d v > 0) = token_taken (agreements d) (pg_text L v)"
proof -
  have "(token_count L d v > 0)
          = (\<exists>r \<in> set (agreements d). token_number r \<noteq> None \<and> token_number r = pg_text L v)"
    by (simp add: token_count_def filter_empty_conv)
  also have "\<dots> = token_taken (agreements d) (pg_text L v)"
    unfolding token_taken_iff by metis
  finally show ?thesis .
qed

lemma update_agreement_Inr:
  "update_agreement L nn d i f = (Inr (r # rs), d1) \<Longrightarrow>
     rs = [] \<and> r \<in> set (agreements d1)
     \<and> (\<exists>old \<in> set (agreements d). int (agreement_id old) = i \<and> r = f old)"
proof -
  assume a: "update_agreement L nn d i f = (Inr (r # rs), d1)"
  show ?thesis
  proof (cases "filter (\<lambda>r. int (agreement_id r) = i) (agreements d)")
    case Nil
    with a show ?thesis by (simp add: update_agreement_def)
  next
    case (Cons old olds)
    then have "old \<in> set (filter (\<lambda>r. int (agreement_id r) = i) (agreements d))"
      by simp
    then have mem: "old \<in> set (agreements d)" and oid: "int (agreement_id old) = i"
      by simp_all
    from a Cons have r: "r = f old" and rs: "rs = []"
      and d1: "agreements d1 = map (\<lambda>x. if int (agreement_id x) = i then r else x) (agreements d)"
      by (auto simp: update_agreement_def Let_def split: if_splits)
    from mem oid have "r \<in> set (agreements d1)"
      unfolding d1 by (auto simp: image_iff intro!: bexI [of _ old])
    with r rs mem oid show ?thesis by blast
  qed
qed

lemma columns_BC_derived:
  "gross_profit (columns_BC L data row)
     = Some (money L data ''totalPayment'' - money L data ''actualCost'')"
  "net_profit (columns_BC L data row)
     = Some (money L data ''totalPayment'' - money L data ''actualCost''
             - money L data ''agentCommission'' - money L data ''otherExpenses'')"
  "profit_margin (columns_BC L data row)
     = Some (if money L data ''totalPayment'' > 0
             then ((money L data ''totalPayment'' - money L data ''actualCost''
                    - money L data ''agentCommission'' - money L data ''otherExpenses'')
                   / money L data ''totalPayment'') * 100
             else 0)"
  "payment_due (columns_BC L data row) = Some (money L data ''paymentDue'')"
  "total_payment (columns_BC L data row) = Some (money L data ''totalPayment'')"
  "payment_owner (columns_BC L data row) = Some (money L data ''paymentOwner'')"
  "payment_tenant (columns_BC L data row) = Some (money L data ''paymentTenant'')"
  "token_number (columns_BC L data row) = pg_text L (data ''tokenNumber'')"
  by (simp_all add: columns_BC_def Let_def money_def)

lemma create_B_success:
  assumes "create_B L d now data = (resp, d')" and "status resp = 200"
  shows "\<exists>r. body resp = Row r \<and> agreements d' = agreements d @ [r]
             \<and> r = (columns_BC L data (defaults_BC now))\<lparr>agreement_id := Suc (agreements_seq d)\<rparr>"
  using assms
  by (auto simp: create_B_def reply_def split: prod.splits sum.splits dest!: insert_agreement_Inr)

lemma create_C_success:
  assumes "create_C L d now u ip data = (resp, d')" and "status resp = 200"
  shows "\<exists>r. body resp = Row r \<and> agreements d' = agreements d @ [r]
             \<and> r = (columns_BC L data (defaults_BC now))\<lparr>agreement_id := Suc (agreements_seq d)\<rparr>"
  using assms
  by (auto simp: create_C_def create_C_check_def create_C_insert_def reply_def insert_log_def
           split: if_splits prod.splits sum.splits
           dest!: insert_agreement_Inr)

lemma update_C_success:
  assumes "update_C L d now u ip idp data = (resp, d')" and "body resp = Row r"
  shows "r \<in> set (agreements d')
         \<and> (\<exists>old \<in> set (agreements d). Some (int (agreement_id old)) = pg_integer_str L idp
                \<and> r = columns_BC L data old)"
  using assms
  by (auto simp: update_C_def reply_def insert_log_def
           split: option.splits if_splits prod.splits sum.splits list.splits
           dest!: update_agreement_Inr)






lemma row_fits_sample [simp]: "row_fits sample_library r"
  by (simp add: sample_library_def)

lemma create_C_scenario:
  "create_C sample_library empty_db 0 sample_admin None scenario
     = (reply 200 (Row scenario_row),
        insert_log (empty_db\<lparr>agreements_seq := 1, agreements := [scenario_row]\<rparr>) 0
          (Some ''admin'') ''CREATE_AGREEMENT'' ''Created agreement with token: T-100'' None)"
  by (simp add: create_C_def create_C_check_def create_C_insert_def token_count_def empty_db_def insert_agreement_def Let_def
        token_taken_def scenario_row_def sample_admin_def)
     (simp add: scenario_def)



lemma columns_A_untouched:
  "gross_profit (columns_A L data cc st tp po pt pd row) = gross_profit row"
  "net_profit (columns_A L data cc st tp po pt pd row) = net_profit row"
  "profit_margin (columns_A L data cc st tp po pt pd row) = profit_margin row"
  "actual_cost (columns_A L data cc st tp po pt pd row) = actual_cost row"
  "agreement_id (columns_A L data cc st tp po pt pd row) = agreement_id row"
  "payment_due (columns_A L data cc st tp po pt pd row) = pd"
  "total_payment (columns_A L data cc st tp po pt pd row) = tp"
  "owner_name (columns_A L data cc st tp po pt pd row) = pg_text L (data ''ownerName'')"
  "location (columns_A L data cc st tp po pt pd row) = pg_text L (data ''location'')"
  "token_number (columns_A L data cc st tp po pt pd row) = pg_text L (data ''tokenNumber'')"
  by (simp_all add: columns_A_def)





lemma due_request_money:
  "money L due_request ''totalPayment'' = 1000"
  "money L due_request ''paymentOwner'' = 200"
  "money L due_request ''paymentTenant'' = 300"
  "money L due_request ''paymentDue'' = 999"
  "money L due_request ''actualCost'' = 0"
  "money L due_request ''agentCommission'' = 0"
  "money L due_request ''otherExpenses'' = 0"
  by (simp_all add: money_def due_request_def parseFloat_def or_zero_def)

lemma sample_integer_1 [simp]: "pg_integer_str sample_library ''1'' = Some 1"
  by (simp add: sample_library_def decimal_def digit_of_def)

lemma one_agreement_db_agreements: "agreements one_agreement_db = [scenario_row]"
  by (simp add: one_agreement_db_def create_C_scenario insert_log_def)

lemma scenario_row_key:
  "agreement_id scenario_row = 1" "token_number scenario_row = Some ''T-100''"
  by (simp_all add: scenario_row_def columns_BC_derived) (simp add: scenario_def)

lemma due_request_token: "due_request ''tokenNumber'' = Some (JStr ''T-100'')"
  by (simp add: due_request_def)



lemma create_C_due_request:
  "create_C sample_library empty_db 5 sample_admin None due_request
     = (reply 200 (Row created_due_row),
        insert_log (empty_db\<lparr>agreements_seq := 1, agreements := [created_due_row]\<rparr>) 5
          (Some ''admin'') ''CREATE_AGREEMENT'' ''Created agreement with token: T-100'' None)"
  by (simp add: create_C_def create_C_check_def create_C_insert_def token_count_def empty_db_def insert_agreement_def Let_def
        token_taken_def created_due_row_def sample_admin_def due_request_token)

text \<open>
  Claim C5 as stated fails: a create that submits total payment 1000, owner payment 200,
  tenant payment 300 and payment due 999 stores 999, not 500.
\<close>

theorem create_C_stores_submitted_due:
  "fst (create_C sample_library empty_db 5 sample_admin None due_request)
     = reply 200 (Row created_due_row)
   \<and> agreements (snd (create_C sample_library empty_db 5 sample_admin None due_request))
     = [created_due_row]
   \<and> total_payment created_due_row = Some 1000
   \<and> payment_owner created_due_row = Some 200
   \<and> payment_tenant created_due_row = Some 300
   \<and> payment_due created_due_row = Some 999
   \<and> payment_due created_due_row \<noteq> Some (1000 - 200 - 300)"
  by (simp add: create_C_due_request insert_log_def)
     (simp add: created_due_row_def columns_BC_derived due_request_money)

text \<open>
  Claim C5, as the code has it. A successful create (revisions B and C) and a successful
  update (revision C) store as payment due the caller's \<^verbatim>\<open>paymentDue\<close>, read as 0 when
  absent or not numeric; the handlers do not compute it from the payments.
\<close>

theorem payment_due_as_submitted:
  "(create_B L d now data = (resp, d') \<and> status resp = 200 \<longrightarrow>
      (\<exists>r. body resp = Row r \<and> agreements d' = agreements d @ [r]
           \<and> payment_due r = Some (money L data ''paymentDue'')))
   \<and> (create_C L d now u ip data = (resp, d') \<and> status resp = 200 \<longrightarrow>
      (\<exists>r. body resp = Row r \<and> agreements d' = agreements d @ [r]
           \<and> payment_due r = Some (money L data ''paymentDue'')))
   \<and> (update_C L d now u ip idp data = (resp, d') \<and> body resp = Row r \<longrightarrow>
      r \<in> set (agreements d') \<and> payment_due r = Some (money L data ''paymentDue''))"
proof -
  have b: "create_B L d now data = (resp, d') \<and> status resp = 200 \<longrightarrow>
      (\<exists>r. body resp = Row r \<and> agreements d' = agreements d @ [r]
           \<and> payment_due r = Some (money L data ''paymentDue''))"
    using create_B_success [of L d now data resp d'] by (auto simp: columns_BC_derived)
  have c: "create_C L d now u ip data = (resp, d') \<and> status resp = 200 \<longrightarrow>
      (\<exists>r. body resp = Row r \<and> agreements d' = agreements d @ [r]
           \<and> payment_due r = Some (money L data ''paymentDue''))"
    using create_C_success [of L d now u ip data resp d'] by (auto simp: columns_BC_derived)
  have upd: "update_C L d now u ip idp data = (resp, d') \<and> body resp = Row r \<longrightarrow>
      r \<in> set (agreements d') \<and> payment_due r = Some (money L data ''paymentDue'')"
    using update_C_success [of L d now u ip idp data resp d' r]
    by (auto simp: columns_BC_derived)
  from b c upd show ?thesis by blast
qed


lemma scenario_fields:
  "scenario ''ownerName'' = Some (JStr ''A'')"
  "scenario ''location'' = Some (JStr ''L1'')"
  "scenario ''tokenNumber'' = Some (JStr ''T-100'')"
  "scenario ''totalPayment'' = Some (JNum 1000)"
  "scenario ''paymentOwner'' = None"
  "scenario ''paymentTenant'' = None"
  "scenario ''paymentDue'' = None"
  "scenario ''ccEmail'' = None"
  "scenario ''agreementStatus'' = None"
  by (simp_all add: scenario_def)


lemma pg_numeric_simps [simp]:
  "pg_numeric L None = Some None"
  "pg_numeric L (Some (JNum x)) = Some (Some x)"
  by (simp_all add: pg_numeric_def)

lemma or_simps [simp]:
  "or_num0 None = Some (JNum 0)"
  "x \<noteq> 0 \<Longrightarrow> or_num0 (Some (JNum x)) = Some (JNum x)"
  "or_str None s = Some (JStr s)"
  by (simp_all add: or_num0_def or_str_def truthy_def)

lemma scenario_row_A_key:
  "agreement_id scenario_row_A = 1"
  "owner_name scenario_row_A = Some ''A''"
  "location scenario_row_A = Some ''L1''"
  "token_number scenario_row_A = Some ''T-100''"
  "gross_profit scenario_row_A = Some 0"
  "net_profit scenario_row_A = Some 0"
  "profit_margin scenario_row_A = Some 0"
  by (simp_all add: scenario_row_A_def columns_A_def defaults_A_def scenario_fields)

lemma create_A_scenario:
  "create_A sample_library empty_db 0 scenario
     = (reply 201 (Row scenario_row_A),
        insert_log (empty_db\<lparr>agreements_seq := 1, agreements := [scenario_row_A]\<rparr>) 0
          (Some ''system'') ''Agreement Created'' ''Agreement added for A (Token: T-100)'' None)"
  by (simp add: create_A_def create_row_A_def scenario_fields insert_agreement_def Let_def token_taken_def
        empty_db_def scenario_row_A_key)
     (simp add: scenario_row_A_def columns_A_def scenario_fields)

lemma one_agreement_db_A_agreements: "agreements one_agreement_db_A = [scenario_row_A]"
  by (simp add: one_agreement_db_A_def create_A_scenario insert_log_def)





lemma create_B_due_request:
  "create_B sample_library empty_db 5 due_request
     = (reply 200 (Row created_due_row),
        empty_db\<lparr>agreements_seq := 1, agreements := [created_due_row]\<rparr>)"
  by (simp add: create_B_def empty_db_def insert_agreement_def Let_def
        token_taken_def created_due_row_def)

text \<open>The theorem at the same payload sent to revision B's create.\<close>

theorem payment_due_as_submitted_witness:
  "fst (create_B sample_library empty_db 5 due_request) = reply 200 (Row created_due_row)
   \<and> agreements (snd (create_B sample_library empty_db 5 due_request)) = [created_due_row]
   \<and> payment_due created_due_row = Some 999"
proof -
  obtain resp d' where run: "create_B sample_library empty_db 5 due_request = (resp, d')"
    by (cases "create_B sample_library empty_db 5 due_request")
  with create_B_due_request have resp: "resp = reply 200 (Row created_due_row)"
    and d': "agreements d' = [created_due_row]"
    by simp_all
  then have ok: "status resp = 200" by (simp add: reply_def)
  from payment_due_as_submitted [of sample_library empty_db 5 due_request resp d'] run ok
  obtain r where "body resp = Row r"
    and "payment_due r = Some (money sample_library due_request ''paymentDue'')"
    by blast
  then have "payment_due created_due_row = Some 999"
    by (simp add: resp reply_def due_request_money)
  with resp d' show ?thesis by (simp add: run)
qed

subsection \<open>Failed logins (revisions C and E)\<close>





subsection \<open>Session validation (revision C)\<close>

text \<open>
  Claim C8, as the code has it. A route behind \<^verbatim>\<open>authenticateToken\<close> answers 401
  "Access token required" when the Authorization header is absent or has no second
  word, and 403 "Invalid or expired token" when the JWT library rejects the token; a
  route that is also behind \<^verbatim>\<open>checkAdmin\<close> answers 403 "Forbidden: Admin access required"
  to a verified token whose role is not admin. In each case the handler is not run and
  the store is unchanged; with a verified token (of role admin, for an admin route) the
  handler runs.
\<close>

theorem session_validation:
  "(bearer_token authHeader = None \<longrightarrow>
      protected L now authHeader h d = (reply 401 (ErrorMsg ''Access token required''), d)
      \<and> admin_only L now authHeader h d = (reply 401 (ErrorMsg ''Access token required''), d))
   \<and> (bearer_token authHeader = Some t \<and> jwt_verify L t now = None \<longrightarrow>
      protected L now authHeader h d = (reply 403 (ErrorMsg ''Invalid or expired token''), d)
      \<and> admin_only L now authHeader h d = (reply 403 (ErrorMsg ''Invalid or expired token''), d))
   \<and> (bearer_token authHeader = Some t \<and> jwt_verify L t now = Some c
       \<and> claim_role c \<noteq> ''admin'' \<longrightarrow>
      admin_only L now authHeader h d
        = (reply 403 (ErrorMsg ''Forbidden: Admin access required''), d))
   \<and> (bearer_token authHeader = Some t \<and> jwt_verify L t now = Some c \<longrightarrow>
      protected L now authHeader h d = h c d
      \<and> (claim_role c = ''admin'' \<longrightarrow> admin_only L now authHeader h d = h c d))
   \<and> bearer_token None = None
   \<and> bearer_token (Some ''Bearer'') = None"
  by (simp add: protected_def admin_only_def authenticateToken_def checkAdmin_def
        bearer_token_def)

lemma bearer_sample:
  "bearer_token (Some ''Bearer expired'') = Some ''expired''"
  "bearer_token (Some ''Bearer token-of-ravi'') = Some ''token-of-ravi''"
  "bearer_token (Some ''Bearer token-of-admin'') = Some ''token-of-admin''"
  by (simp_all add: bearer_token_def)

lemma jwt_sample:
  "jwt_verify sample_library ''expired'' 0 = None"
  "jwt_verify sample_library ''token-of-ravi'' 0 = Some sample_agent"
  "jwt_verify sample_library ''token-of-admin'' 0 = Some sample_admin"
  by (simp_all add: sample_library_def)

text \<open>
  Claim C8 as stated fails: a token that the JWT library rejects is answered with
  status 403, not 401.
\<close>

theorem invalid_token_gets_403:
  "bearer_token (Some ''Bearer expired'') = Some ''expired''
   \<and> jwt_verify sample_library ''expired'' 0 = None
   \<and> protected sample_library 0 (Some ''Bearer expired'')
        (delete_user_C sample_library ''2'') bcrypt_db
       = (reply 403 (ErrorMsg ''Invalid or expired token''), bcrypt_db)
   \<and> status (fst (protected sample_library 0 (Some ''Bearer expired'')
                     (delete_user_C sample_library ''2'') bcrypt_db)) \<noteq> 401"
  by (simp add: bearer_sample jwt_sample protected_def authenticateToken_def reply_def)

text \<open>
  The theorem at a request without header, at a rejected token and at an agent's token on
  the admin-only user deletion.
\<close>

theorem session_validation_witness:
  "bearer_token None = None
   \<and> protected sample_library 0 None (delete_user_C sample_library ''2'') bcrypt_db
       = (reply 401 (ErrorMsg ''Access token required''), bcrypt_db)
   \<and> bearer_token (Some ''Bearer expired'') = Some ''expired''
   \<and> jwt_verify sample_library ''expired'' 0 = None
   \<and> admin_only sample_library 0 (Some ''Bearer expired'')
        (delete_user_C sample_library ''2'') bcrypt_db
       = (reply 403 (ErrorMsg ''Invalid or expired token''), bcrypt_db)
   \<and> bearer_token (Some ''Bearer token-of-ravi'') = Some ''token-of-ravi''
   \<and> jwt_verify sample_library ''token-of-ravi'' 0 = Some sample_agent
   \<and> claim_role sample_agent \<noteq> ''admin''
   \<and> admin_only sample_library 0 (Some ''Bearer token-of-ravi'')
        (delete_user_C sample_library ''1'') bcrypt_db
       = (reply 403 (ErrorMsg ''Forbidden: Admin access required''), bcrypt_db)"
proof -
  have none: "bearer_token None = None" by (simp add: bearer_token_def)
  have role: "claim_role sample_agent \<noteq> ''admin''" by (simp add: sample_agent_def)
  from session_validation [of None sample_library 0 "delete_user_C sample_library ''2''" bcrypt_db]
       none
  have a: "protected sample_library 0 None (delete_user_C sample_library ''2'') bcrypt_db
       = (reply 401 (ErrorMsg ''Access token required''), bcrypt_db)"
    by blast
  from session_validation [of "Some ''Bearer expired''" sample_library 0
         "delete_user_C sample_library ''2''" bcrypt_db "''expired''"]
       bearer_sample(1) jwt_sample(1)
  have b: "admin_only sample_library 0 (Some ''Bearer expired'')
        (delete_user_C sample_library ''2'') bcrypt_db
       = (reply 403 (ErrorMsg ''Invalid or expired token''), bcrypt_db)"
    by blast
  from session_validation [of "Some ''Bearer token-of-ravi''" sample_library 0
         "delete_user_C sample_library ''1''" bcrypt_db "''token-of-ravi''" sample_agent]
       bearer_sample(2) jwt_sample(2) role
  have c: "admin_only sample_library 0 (Some ''Bearer token-of-ravi'')
        (delete_user_C sample_library ''1'') bcrypt_db
       = (reply 403 (ErrorMsg ''Forbidden: Admin access required''), bcrypt_db)"
    by blast
  from none a b c role bearer_sample jwt_sample show ?thesis by simp
qed

subsection \<open>The debug endpoint (revision A)\<close>

text \<open>
  Claim C10. \<^verbatim>\<open>GET /api/debug/users\<close> of revision A takes nothing from the request, and
  answers 200 with the id, username, role and stored password of every user, ordered by
  id. So when two stores differ in the stored password of one user (ids being unique),
  the responses differ.
\<close>

theorem debug_users_exposes_credentials:
  "debug_users_A d
     = (reply 200 (DebugUsers (map (\<lambda>r. (user_id r, username r, role r, password r))
                                 (sort_key user_id (users d)))), d)
   \<and> (r \<in> set (users d) \<longrightarrow>
        (\<exists>rows. body (fst (debug_users_A d)) = DebugUsers rows
               \<and> (user_id r, username r, role r, password r) \<in> set rows))
   \<and> (distinct (map user_id (users d)) \<and> r \<in> set (users d) \<and> password r \<noteq> p
        \<and> users d2 = map (\<lambda>x. if user_id x = user_id r then x\<lparr>password := p\<rparr> else x) (users d)
        \<longrightarrow> fst (debug_users_A d2) \<noteq> fst (debug_users_A d))"
proof -
  have eq: "debug_users_A d
     = (reply 200 (DebugUsers (map (\<lambda>r. (user_id r, username r, role r, password r))
                                 (sort_key user_id (users d)))), d)"
    by (simp add: debug_users_A_def)
  have mem: "r \<in> set (users d) \<longrightarrow>
        (\<exists>rows. body (fst (debug_users_A d)) = DebugUsers rows
               \<and> (user_id r, username r, role r, password r) \<in> set rows)"
    by (auto simp: debug_users_A_def reply_def)
  have diff: "fst (debug_users_A d2) \<noteq> fst (debug_users_A d)"
    if dist: "distinct (map user_id (users d))" and r: "r \<in> set (users d)"
      and p: "password r \<noteq> p"
      and d2: "users d2 = map (\<lambda>x. if user_id x = user_id r then x\<lparr>password := p\<rparr> else x) (users d)"
  proof
    assume same: "fst (debug_users_A d2) = fst (debug_users_A d)"
    let ?f = "\<lambda>r. (user_id r, username r, role r, password r)"
    from same have "map ?f (sort_key user_id (users d2)) = map ?f (sort_key user_id (users d))"
      by (simp add: debug_users_A_def reply_def)
    then have "set (map ?f (sort_key user_id (users d2))) = set (map ?f (sort_key user_id (users d)))"
      by simp
    then have sets: "?f ` set (users d2) = ?f ` set (users d)"
      by simp
    have "?f r \<in> ?f ` set (users d)" using r by blast
    with sets have "?f r \<in> ?f ` set (users d2)" by simp
    then obtain y where y: "y \<in> set (users d2)" and fy: "?f y = ?f r" by auto
    from y d2 obtain x where x: "x \<in> set (users d)"
      and yx: "y = (if user_id x = user_id r then x\<lparr>password := p\<rparr> else x)"
      by auto
    from fy yx have "user_id x = user_id r" by (auto split: if_splits)
    with yx fy p show False by auto
  qed
  from eq mem diff show ?thesis by blast
qed

text \<open>The theorem at the sample users, before and after one password changes.\<close>

theorem debug_users_exposes_credentials_witness:
  "distinct (map user_id (users legacy_db))
   \<and> mk_user 2 ''bob'' ''hunter2'' ''user'' \<in> set (users legacy_db)
   \<and> password (mk_user 2 ''bob'' ''hunter2'' ''user'') \<noteq> ''changed''
   \<and> fst (debug_users_A legacy_db)
       = reply 200 (DebugUsers [(1, ''admin'', ''admin'', ''admin123''),
                                 (2, ''bob'', ''user'', ''hunter2'')])
   \<and> fst (debug_users_A (legacy_db\<lparr>users := [mk_user 1 ''admin'' ''admin123'' ''admin'',
                                                mk_user 2 ''bob'' ''changed'' ''user'']\<rparr>))
       \<noteq> fst (debug_users_A legacy_db)"
proof -
  let ?bob = "mk_user 2 ''bob'' ''hunter2'' ''user''"
  let ?d2 = "legacy_db\<lparr>users := [mk_user 1 ''admin'' ''admin123'' ''admin'',
                                   mk_user 2 ''bob'' ''changed'' ''user'']\<rparr>"
  have dist: "distinct (map user_id (users legacy_db))"
    by (simp add: legacy_db_def empty_db_def mk_user_def)
  have mem: "?bob \<in> set (users legacy_db)"
    by (simp add: legacy_db_def empty_db_def)
  have ne: "password ?bob \<noteq> ''changed''" by (simp add: mk_user_def)
  have d2: "users ?d2 = map (\<lambda>x. if user_id x = user_id ?bob then x\<lparr>password := ''changed''\<rparr> else x)
                            (users legacy_db)"
    by (simp add: legacy_db_def empty_db_def mk_user_def)
  from debug_users_exposes_credentials [of legacy_db ?bob "''changed''" ?d2] dist mem ne d2
  have out: "debug_users_A legacy_db
       = (reply 200 (DebugUsers (map (\<lambda>r. (user_id r, username r, role r, password r))
                                   (sort_key user_id (users legacy_db)))), legacy_db)"
    and diff: "fst (debug_users_A ?d2) \<noteq> fst (debug_users_A legacy_db)"
    by blast+
  have "fst (debug_users_A legacy_db)
       = reply 200 (DebugUsers [(1, ''admin'', ''admin'', ''admin123''),
                                 (2, ''bob'', ''user'', ''hunter2'')])"
    unfolding out by (simp add: legacy_db_def empty_db_def mk_user_def)
  with dist mem ne diff show ?thesis by blast
qed

subsection \<open>Token-number uniqueness (revisions A and C)\<close>

lemma truthy_pg_text: "truthy v \<Longrightarrow> pg_text L v \<noteq> None"
  by (auto simp: truthy_def pg_text_def split: option.splits jsval.splits)

lemma create_row_A_columns:
  "create_row_A L now data = Some row \<Longrightarrow>
     owner_name row = pg_text L (data ''ownerName'')
     \<and> location row = pg_text L (data ''location'')
     \<and> token_number row = pg_text L (data ''tokenNumber'')"
  by (auto simp: create_row_A_def bind_eq_Some_conv columns_A_untouched)

lemma create_A_taken:
  assumes taken: "token_taken (agreements d) (pg_text L (data ''tokenNumber''))"
      and run: "create_A L d now data = (resp, d')"
  shows "agreements d' = agreements d" and "status resp \<noteq> 201"
    and "status resp \<noteq> 400 \<and> status resp \<noteq> 500
           \<longrightarrow> resp = reply 409 (ErrorMsg ''Token number already exists'')"
  using assms
  by (auto simp: create_A_def reply_def insert_agreement_def Let_def
           split: if_splits option.splits dest!: create_row_A_columns)

lemma create_A_conflict:
  assumes taken: "token_taken (agreements d) (pg_text L (data ''tokenNumber''))"
      and valid: "truthy (data ''ownerName'')" "truthy (data ''location'')"
                 "truthy (data ''tokenNumber'')"
      and row: "create_row_A L now data = Some row"
      and fits: "row_fits L (row\<lparr>agreement_id := Suc (agreements_seq d)\<rparr>)"
  shows "create_A L d now data
           = (reply 409 (ErrorMsg ''Token number already exists''),
              d\<lparr>agreements_seq := Suc (agreements_seq d)\<rparr>)"
proof -
  from create_row_A_columns [OF row] valid
  have nn: "owner_name row \<noteq> None" "location row \<noteq> None" "token_number row \<noteq> None"
    and tk: "token_number row = pg_text L (data ''tokenNumber'')"
    by (simp_all add: truthy_pg_text)
  from nn tk taken fits have
    "insert_agreement L True d row
       = (Inl UniqueViolation, d\<lparr>agreements_seq := Suc (agreements_seq d)\<rparr>)"
    by (simp add: insert_agreement_def Let_def)
  with valid row show ?thesis by (simp add: create_A_def)
qed

lemma create_A_success_taken:
  assumes "create_A L d now data = (resp, d')" and "status resp = 201"
  shows "token_taken (agreements d') (pg_text L (data ''tokenNumber''))"
  using assms
proof -
  from assms have valid: "truthy (data ''tokenNumber'')"
    by (auto simp: create_A_def reply_def split: if_splits)
  from assms obtain row r d1 where row: "create_row_A L now data = Some row"
    and ins: "insert_agreement L True d row = (Inr r, d1)"
    and d': "agreements d' = agreements d1"
    by (auto simp: create_A_def reply_def insert_log_def
             split: if_splits option.splits prod.splits sum.splits dberror.splits)
  from insert_agreement_Inr [OF ins] create_row_A_columns [OF row]
  have "token_number r = pg_text L (data ''tokenNumber'')" and "r \<in> set (agreements d1)"
    by simp_all
  with truthy_pg_text [OF valid, of L] d' show ?thesis
    unfolding token_taken_iff by metis
qed

lemma create_C_success_taken:
  assumes "create_C L d now u ip data = (resp, d')" and "status resp = 200"
      and "pg_text L (data ''tokenNumber'') \<noteq> None"
  shows "token_taken (agreements d') (pg_text L (data ''tokenNumber''))"
  using create_C_success [OF assms(1,2)] assms(3)
  unfolding token_taken_iff by (auto simp: columns_BC_derived)

text \<open>
  Claim C7, as the code has it. A create whose token number is already stored inserts
  nothing. Revision C answers it with 400 "Token number already exists" from the count
  it makes first. Revision A never answers it with 201, and answers 409 "Token number
  already exists" from the UNIQUE constraint whenever the request passes the
  required-field check and its row is otherwise acceptable to the table. After a
  successful create the token number (when not NULL) is stored, so that a later create
  with the same token number is rejected in this way.
\<close>

theorem duplicate_token_rejected:
  "(token_taken (agreements d) (pg_text L (data ''tokenNumber'')) \<longrightarrow>
      create_C L d now u ip data = (reply 400 (ErrorMsg ''Token number already exists''), d))
   \<and> (token_taken (agreements d) (pg_text L (data ''tokenNumber''))
       \<and> create_A L d now data = (resp, d') \<longrightarrow>
      agreements d' = agreements d \<and> status resp \<noteq> 201)
   \<and> (token_taken (agreements d) (pg_text L (data ''tokenNumber''))
       \<and> truthy (data ''ownerName'') \<and> truthy (data ''location'') \<and> truthy (data ''tokenNumber'')
       \<and> create_row_A L now data = Some row
       \<and> row_fits L (row\<lparr>agreement_id := Suc (agreements_seq d)\<rparr>) \<longrightarrow>
      create_A L d now data
        = (reply 409 (ErrorMsg ''Token number already exists''),
           d\<lparr>agreements_seq := Suc (agreements_seq d)\<rparr>))
   \<and> (create_A L d now data = (resp, d') \<and> status resp = 201 \<longrightarrow>
      token_taken (agreements d') (pg_text L (data ''tokenNumber'')))
   \<and> (create_C L d now u ip data = (resp, d') \<and> status resp = 200
       \<and> pg_text L (data ''tokenNumber'') \<noteq> None \<longrightarrow>
      token_taken (agreements d') (pg_text L (data ''tokenNumber'')))"
proof -
  have c1: "token_taken (agreements d) (pg_text L (data ''tokenNumber'')) \<longrightarrow>
      create_C L d now u ip data = (reply 400 (ErrorMsg ''Token number already exists''), d)"
    by (simp add: create_C_def create_C_check_def token_count_taken)
  from create_A_taken [of d L data now resp d'] create_A_conflict [of d L data now row]
       create_A_success_taken [of L d now data resp d']
       create_C_success_taken [of L d now u ip data resp d'] c1
  show ?thesis by blast
qed


text \<open>
  Revision C's INSERT step on its own: when the token number has been stored since the
  count, the constraint violation ends in the handler's catch, which answers 500.
\<close>

lemma create_C_insert_taken:
  "token_taken (agreements d) (pg_text L (data ''tokenNumber'')) \<Longrightarrow>
     create_C_insert L d now u ip data
       = (reply 500 (ErrorMsg ''Failed to save agreement''),
          d\<lparr>agreements_seq := Suc (agreements_seq d)\<rparr>)"
  by (simp add: create_C_insert_def insert_agreement_def Let_def columns_BC_derived)

lemma one_agreement_db_eq:
  "one_agreement_db
     = insert_log (empty_db\<lparr>agreements_seq := 1, agreements := [scenario_row]\<rparr>) 0
         (Some ''admin'') ''CREATE_AGREEMENT'' ''Created agreement with token: T-100'' None"
  by (simp add: one_agreement_db_def create_C_scenario)

lemma create_C_insert_scenario:
  "create_C_insert sample_library empty_db 0 sample_admin None scenario
     = (reply 200 (Row scenario_row), one_agreement_db)"
  using create_C_scenario
  by (simp add: create_C_def create_C_check_def token_count_def empty_db_def one_agreement_db_eq)

text \<open>
  Claim C7 as stated fails in revision C. Submitted after the first, the second create
  with the token \<^verbatim>\<open>T-100\<close> gets status 400, not 409. Submitted concurrently, so that both
  counts run before either INSERT, the second INSERT violates the UNIQUE constraint and
  the handler's catch answers 500 "Failed to save agreement".
\<close>

theorem create_C_duplicate_gets_400:
  "token_taken (agreements one_agreement_db) (pg_text sample_library (due_request ''tokenNumber''))
   \<and> create_C sample_library one_agreement_db 5 sample_agent None due_request
       = (reply 400 (ErrorMsg ''Token number already exists''), one_agreement_db)
   \<and> status (fst (create_C sample_library one_agreement_db 5 sample_agent None due_request))
       \<noteq> 409
   \<and> create_C_check sample_library empty_db scenario = None
   \<and> create_C_check sample_library empty_db due_request = None
   \<and> create_C_insert sample_library empty_db 0 sample_admin None scenario
       = (reply 200 (Row scenario_row), one_agreement_db)
   \<and> fst (create_C_insert sample_library one_agreement_db 5 sample_agent None due_request)
       = reply 500 (ErrorMsg ''Failed to save agreement'')"
proof -
  have taken: "token_taken (agreements one_agreement_db)
                 (pg_text sample_library (due_request ''tokenNumber''))"
    by (simp add: one_agreement_db_agreements due_request_token token_taken_def scenario_row_key)
  then have dup: "create_C sample_library one_agreement_db 5 sample_agent None due_request
       = (reply 400 (ErrorMsg ''Token number already exists''), one_agreement_db)"
    by (simp add: create_C_def create_C_check_def token_count_taken)
  have checks: "create_C_check sample_library empty_db scenario = None"
               "create_C_check sample_library empty_db due_request = None"
    by (simp_all add: create_C_check_def token_count_def empty_db_def)
  have race: "fst (create_C_insert sample_library one_agreement_db 5 sample_agent None due_request)
       = reply 500 (ErrorMsg ''Failed to save agreement'')"
    using taken
    by (simp add: create_C_insert_def insert_agreement_def Let_def columns_BC_derived)
  from taken dup checks create_C_insert_scenario race show ?thesis
    by (simp add: reply_def)
qed

text \<open>
  The theorem at the specification's request sent twice to revision A, and at a second
  request with the same token sent to revision C.
\<close>

theorem duplicate_token_rejected_witness:
  "token_taken (agreements one_agreement_db_A) (pg_text sample_library (scenario ''tokenNumber''))
   \<and> truthy (scenario ''ownerName'') \<and> truthy (scenario ''location'')
   \<and> truthy (scenario ''tokenNumber'')
   \<and> create_row_A sample_library 5 scenario \<noteq> None
   \<and> create_A sample_library one_agreement_db_A 5 scenario
       = (reply 409 (ErrorMsg ''Token number already exists''),
          one_agreement_db_A\<lparr>agreements_seq := Suc (agreements_seq one_agreement_db_A)\<rparr>)
   \<and> status (fst (create_A sample_library empty_db 0 scenario)) = 201
   \<and> token_taken (agreements one_agreement_db)
        (pg_text sample_library (due_request ''tokenNumber''))
   \<and> create_C sample_library one_agreement_db 7 sample_admin None due_request
       = (reply 400 (ErrorMsg ''Token number already exists''), one_agreement_db)"
proof -
  have takenA: "token_taken (agreements one_agreement_db_A)
                  (pg_text sample_library (scenario ''tokenNumber''))"
    by (simp add: one_agreement_db_A_agreements scenario_fields token_taken_def
          scenario_row_A_key)
  have valid: "truthy (scenario ''ownerName'')" "truthy (scenario ''location'')"
              "truthy (scenario ''tokenNumber'')"
    by (simp_all add: scenario_fields)
  obtain row where row: "create_row_A sample_library 5 scenario = Some row"
    by (simp add: create_row_A_def scenario_fields)
  have fits: "row_fits sample_library
                (row\<lparr>agreement_id := Suc (agreements_seq one_agreement_db_A)\<rparr>)"
    by simp
  have first: "status (fst (create_A sample_library empty_db 0 scenario)) = 201"
    by (simp add: create_A_scenario reply_def)
  have takenC: "token_taken (agreements one_agreement_db)
                  (pg_text sample_library (due_request ''tokenNumber''))"
    by (simp add: one_agreement_db_agreements due_request_token token_taken_def scenario_row_key)
  from duplicate_token_rejected [of one_agreement_db_A sample_library scenario 5
         sample_admin None _ _ row] takenA valid row fits
  have a: "create_A sample_library one_agreement_db_A 5 scenario
       = (reply 409 (ErrorMsg ''Token number already exists''),
          one_agreement_db_A\<lparr>agreements_seq := Suc (agreements_seq one_agreement_db_A)\<rparr>)"
    by blast
  from duplicate_token_rejected [of one_agreement_db sample_library due_request 7
         sample_admin None] takenC
  have c: "create_C sample_library one_agreement_db 7 sample_admin None due_request
       = (reply 400 (ErrorMsg ''Token number already exists''), one_agreement_db)"
    by blast
  from takenA valid row first takenC a c show ?thesis by simp
qed

subsection \<open>User deletion and the restore of users (revisions A, B and C)\<close>



lemma insert_user_Inl:
  "insert_user d un pw rl c = (Inl e, d1) \<Longrightarrow> users d1 = users d \<and> agreements d1 = agreements d"
  by (auto simp: insert_user_def Let_def split: option.splits if_splits)












text \<open>
  When a restore answers 200, the agreements table holds one row for each snapshot row,
  in the snapshot's order, with the snapshot's token numbers (ids and creation times are
  new): in revision A, and in revision B.
\<close>

lemma snapshot_row_A_token:
  "snapshot_row_A L now ag = Some row \<Longrightarrow> token_number row = pg_text L (ag ''token_number'')"
  by (auto simp: snapshot_row_A_def bind_eq_Some_conv)

lemma snapshot_row_B_token:
  "snapshot_row_B L now ag = Some row \<Longrightarrow> token_number row = pg_text L (ag ''token_number'')"
  by (auto simp: snapshot_row_B_def bind_eq_Some_conv)

lemma restore_loop_A_tokens:
  "restore_loop_A L d now ags = (Inr x, d') \<Longrightarrow>
     map token_number (agreements d')
       = map token_number (agreements d) @ map (\<lambda>ag. pg_text L (ag ''token_number'')) ags"
proof (induction ags arbitrary: d)
  case Nil
  then show ?case by simp
next
  case (Cons ag ags)
  from Cons.prems obtain row r d1 where
    row: "snapshot_row_A L now ag = Some row"
    and ins: "insert_agreement L True d row = (Inr r, d1)"
    and rest: "restore_loop_A L d1 now ags = (Inr x, d')"
    by (auto split: option.splits prod.splits sum.splits)
  from insert_agreement_Inr [OF ins] snapshot_row_A_token [OF row]
  have "agreements d1 = agreements d @ [r]"
    and "token_number r = pg_text L (ag ''token_number'')"
    by simp_all
  with Cons.IH [OF rest] show ?case by simp
qed

lemma restore_A_success:
  assumes "restore_A L d now body_agreements = (resp, d')" and "status resp = 200"
  shows "\<exists>ags. body_agreements = Some ags
           \<and> resp = reply 200 (Restored ''Backup restored successfully'' (length ags))
           \<and> map token_number (agreements d') = map (\<lambda>ag. pg_text L (ag ''token_number'')) ags"
  using assms
  by (auto simp: restore_A_def reply_def Let_def split: option.splits prod.splits sum.splits
           dest!: restore_loop_A_tokens)

lemma restore_agreements_B_tokens:
  "restore_agreements_B L d now ags = (Inr x, d') \<Longrightarrow>
     map token_number (agreements d')
       = map token_number (agreements d) @ map (\<lambda>ag. pg_text L (ag ''token_number'')) ags"
proof (induction ags arbitrary: d)
  case Nil
  then show ?case by simp
next
  case (Cons ag ags)
  from Cons.prems obtain row r d1 where
    row: "snapshot_row_B L now ag = Some row"
    and ins: "insert_agreement L False d row = (Inr r, d1)"
    and rest: "restore_agreements_B L d1 now ags = (Inr x, d')"
    by (auto split: option.splits prod.splits sum.splits)
  from insert_agreement_Inr [OF ins] snapshot_row_B_token [OF row]
  have "agreements d1 = agreements d @ [r]"
    and "token_number r = pg_text L (ag ''token_number'')"
    by simp_all
  with Cons.IH [OF rest] show ?case by simp
qed

lemma restore_users_B_agreements:
  "restore_users_B L d now us = (res, d') \<Longrightarrow> agreements d' = agreements d"
proof (induction us arbitrary: d)
  case Nil
  then show ?case by simp
next
  case (Cons u us)
  then show ?case
    by (auto simp: insert_user_def Let_def
             split: option.splits prod.splits sum.splits if_splits)
qed

lemma restore_settings_B_agreements:
  "restore_settings_B L d s = (res, d') \<Longrightarrow> agreements d' = agreements d"
  by (auto simp: restore_settings_B_def split: option.splits)

lemma restore_B_success:
  assumes "restore_B L d now b = (resp, d')" and "status resp = 200"
  shows "map token_number (agreements d')
           = (case backup_agreements b of
                None \<Rightarrow> []
              | Some ags \<Rightarrow> map (\<lambda>ag. pg_text L (ag ''token_number'')) ags)"
proof -
  from assms obtain x where body: "restore_body_B L d now b = (Inr x, d')"
    by (auto simp: restore_B_def reply_def split: prod.splits sum.splits)
  let ?d1 = "d\<lparr>activity_logs := [], agreements := [], users := []\<rparr>"
  from body obtain y d2 where
    ags: "(case backup_agreements b of None \<Rightarrow> (Inr (), ?d1)
           | Some ags \<Rightarrow> restore_agreements_B L ?d1 now ags) = (Inr y, d2)"
    by (auto simp: restore_body_B_def Let_def split: prod.splits sum.splits)
  then have a2: "map token_number (agreements d2)
           = (case backup_agreements b of
                None \<Rightarrow> []
              | Some ags \<Rightarrow> map (\<lambda>ag. pg_text L (ag ''token_number'')) ags)"
    by (auto split: option.splits dest: restore_agreements_B_tokens)
  from body ags obtain z d3 where
    us: "(case backup_users b of None \<Rightarrow> (Inr (), d2)
          | Some us \<Rightarrow> restore_users_B L d2 now us) = (Inr z, d3)"
    and st: "(case backup_settings b of None \<Rightarrow> (Inr (), d3)
              | Some s \<Rightarrow> restore_settings_B L d3 s) = (Inr x, d')"
    by (auto simp: restore_body_B_def Let_def split: prod.splits sum.splits)
  from us have "agreements d3 = agreements d2"
    by (auto split: option.splits dest: restore_users_B_agreements)
  moreover from st have "agreements d' = agreements d3"
    by (auto split: option.splits dest: restore_settings_B_agreements)
  ultimately show ?thesis using a2 by simp
qed

text \<open>
  Revision B's restore brackets its statements with BEGIN and COMMIT and rolls back in
  its catch: when it does not answer 200 it answers 500 and every table is as before.
\<close>

lemma restore_B_all_or_nothing:
  assumes "restore_B L d now b = (resp, d')" and "status resp \<noteq> 200"
  shows "resp = reply 500 (ErrorMsg ''Failed to restore backup'')
         \<and> users d' = users d \<and> agreements d' = agreements d
         \<and> activity_logs d' = activity_logs d \<and> system_settings d' = system_settings d"
  using assms
  by (auto simp: restore_B_def rollback_def reply_def split: prod.splits sum.splits)

lemma snapshot_row_fields:
  "snapshot_row ''owner_name'' = Some (JStr ''B'')"
  "snapshot_row ''location'' = Some (JStr ''L2'')"
  "snapshot_row ''token_number'' = Some (JStr ''T-200'')"
  by (simp_all add: snapshot_row_def)

lemma snapshot_row_A_sample:
  "\<exists>row. snapshot_row_A sample_library 9 snapshot_row = Some row
         \<and> owner_name row = Some ''B'' \<and> location row = Some ''L2''
         \<and> token_number row = Some ''T-200''"
  by (simp add: snapshot_row_A_def snapshot_row_fields) (simp add: snapshot_row_def)

text \<open>
  Claim C2 at revision A's restore, which runs DELETE and each INSERT as statements of
  their own. With a snapshot that names the token \<^verbatim>\<open>T-200\<close> twice, the second INSERT
  fails: the response is 500, the agreement \<^verbatim>\<open>T-100\<close> stored before is gone and the first
  snapshot row is stored. The store is neither the snapshot nor its state before.
\<close>

theorem restore_A_leaves_partial_state:
  "map token_number (agreements one_agreement_db_A) = [Some ''T-100'']
   \<and> fst (restore_A sample_library one_agreement_db_A 9 (Some duplicate_snapshot))
       = reply 500 (ErrorMsg ''Internal server error'')
   \<and> map token_number
        (agreements (snd (restore_A sample_library one_agreement_db_A 9
                            (Some duplicate_snapshot))))
       = [Some ''T-200'']"
proof -
  obtain row where row: "snapshot_row_A sample_library 9 snapshot_row = Some row"
    and nn: "owner_name row = Some ''B''" "location row = Some ''L2''"
    and tk: "token_number row = Some ''T-200''"
    using snapshot_row_A_sample by blast
  have before: "map token_number (agreements one_agreement_db_A) = [Some ''T-100'']"
    by (simp add: one_agreement_db_A_agreements scenario_row_A_key)
  have run: "restore_A sample_library one_agreement_db_A 9 (Some duplicate_snapshot)
       = (reply 500 (ErrorMsg ''Internal server error''),
          one_agreement_db_A\<lparr>agreements :=
              [row\<lparr>agreement_id := Suc (agreements_seq one_agreement_db_A)\<rparr>],
            agreements_seq := Suc (Suc (agreements_seq one_agreement_db_A))\<rparr>)"
    by (simp add: restore_A_def duplicate_snapshot_def row insert_agreement_def Let_def
          nn tk token_taken_def)
  from before tk show ?thesis by (simp add: run)
qed

end
